theory Spec2Isabelle
  imports Main
begin

section \<open>Tailscale SSH server (ssh/tailssh/tailssh.go): model\<close>

text \<open>
  Go strings are byte sequences: \<^typ>\<open>string\<close>. A Go \<open>map[string]string\<close> is a partial
  function; reading a missing key (also of a nil map) gives the second component
  \<open>ok = false\<close> and the zero value \<open>''''\<close>. Times are integers (nanoseconds), and
  \<open>t.Before(u)\<close> is \<open>t < u\<close>. Metrics counters and log lines are not modelled.
\<close>

subsection \<open>Helpers of the Go library used by the code\<close>

text \<open>\<open>strings.Cut(s, sep)\<close> for a one-byte separator: the text before the first \<open>sep\<close>,
  the text after it, and whether \<open>sep\<close> occurs; \<open>(s, '''', false)\<close> when it does not.\<close>

fun Cut :: "string \<Rightarrow> char \<Rightarrow> string \<times> string \<times> bool" where
  "Cut [] sep = ([], [], False)"
| "Cut (c # cs) sep =
     (if c = sep then ([], cs, True)
      else (case Cut cs sep of
              (before, after, found) \<Rightarrow>
                if found then (c # before, after, True) else (c # cs, [], False)))"

definition HasSuffix :: "string \<Rightarrow> string \<Rightarrow> bool" where
  "HasSuffix s suf =
     (length suf \<le> length s \<and> drop (length s - length suf) s = suf)"

definition HasPrefix :: "string \<Rightarrow> string \<Rightarrow> bool" where
  "HasPrefix s pre = (take (length pre) s = pre)"

definition TrimSuffix :: "string \<Rightarrow> string \<Rightarrow> string" where
  "TrimSuffix s suf = (if HasSuffix s suf then take (length s - length suf) s else s)"

definition forcePasswordSuffix :: string where
  "forcePasswordSuffix = ''+password''"

subsection \<open>Policy documents\<close>

text \<open>
  Modelled from the spec: the types \<open>tailcfg.SSHPolicy\<close>, \<open>SSHRule\<close>, \<open>SSHPrincipal\<close>
  and \<open>SSHAction\<close> are declared in package tailcfg, outside the files at hand. Their
  fields are the ones the code reads and section 3 of the specification lists. Rules,
  principals and a rule's action are pointers in the code and may be nil: \<open>None\<close>.
\<close>

type_synonym time = int

record SSHPrincipal =
  Node :: string
  NodeIP :: string
  UserLogin :: string
  Any :: bool
  PubKeys :: "string list"

record SSHAction =
  Message :: string
  Reject :: bool
  Accept :: bool
  SessionDuration :: int
  AllowAgentForwarding :: bool
  HoldAndDelegate :: string
  AllowLocalPortForwarding :: bool

record SSHRule =
  RuleExpires :: "time option"
  Principals :: "SSHPrincipal option list"
  SSHUsers :: "string \<rightharpoonup> string"
  Action :: "SSHAction option"

record SSHPolicy =
  Rules :: "SSHRule option list"

subsection \<open>mapLocalUser\<close>

definition mapLocalUser :: "(string \<rightharpoonup> string) \<Rightarrow> string \<Rightarrow> string" where
  "mapLocalUser ruleSSHUsers reqSSHUser =
     (let v = (case ruleSSHUsers reqSSHUser of
                 Some v \<Rightarrow> v
               | None \<Rightarrow> (case ruleSSHUsers ''*'' of Some w \<Rightarrow> w | None \<Rightarrow> ''''))
      in if v = ''='' then reqSSHUser else v)"

subsection \<open>Public keys and authorized-key entries\<close>

text \<open>
  \<open>ssh.PublicKey\<close> is an interface of the SSH library; the code calls its methods
  \<open>Type()\<close> and \<open>Marshal()\<close> only. \<open>base64.StdEncoding.DecodeString\<close> is a parameter:
  the bytes it returns (the code discards its error). The wire form of a key that the
  SSH library hands over begins with the name of its algorithm and is not empty.
\<close>

record PublicKey =
  Type :: string
  Marshal :: string

definition pubKeyMatchesAuthorizedKey ::
  "(string \<Rightarrow> string) \<Rightarrow> PublicKey \<Rightarrow> string \<Rightarrow> bool" where
  "pubKeyMatchesAuthorizedKey DecodeString pubKey wantKey =
     (case Cut wantKey CHR '' '' of
        (wantKeyType, rest, ok) \<Rightarrow>
          if \<not> ok then False
          else if Type pubKey \<noteq> wantKeyType then False
          else (case Cut rest CHR '' '' of
                  (wantKeyB64, _, _) \<Rightarrow>
                    let wantKeyData = DecodeString wantKeyB64
                    in length wantKeyData > 0 \<and> Marshal pubKey = wantKeyData))"

subsection \<open>Errors\<close>

text \<open>
  Go errors as values: the SSH library's \<open>gossh.ErrDenied\<close>, the internal sentinel
  \<open>errPubKeyRequired\<close>, errors made in the code, and \<open>External\<close>: an error handed back
  by a library or by the operating system.
\<close>

datatype error =
    ErrDenied
  | DeniedBecause error
  | errPubKeyRequired
  | Errorf string
  | Wrap string error
  | External string

text \<open>
  \<open>DeniedBecause err\<close> is \<open>fmt.Errorf("%w: %v", gossh.ErrDenied, err)\<close>: it wraps the
  denial and mentions \<open>err\<close>. \<open>Wrap prefix err\<close> is an error made with \<open>%w\<close> from
  \<open>err\<close> after the text \<open>prefix\<close>. \<open>Errorf\<close> is \<open>errors.New\<close> or \<open>fmt.Errorf\<close> of a text.
  \<open>errors.Is(err, gossh.ErrDenied)\<close> holds for the denial and for what wraps it:
\<close>

fun isDenied :: "error \<Rightarrow> bool" where
  "isDenied ErrDenied = True"
| "isDenied (DeniedBecause e) = True"
| "isDenied (Wrap msg e) = isDenied e"
| "isDenied e = False"

text \<open>A call that panics returns nothing; its message is kept.\<close>

datatype 'a outcome = Panic string | Returns 'a

subsection \<open>The surroundings of the server\<close>

text \<open>
  Addresses are \<open>netip.Addr\<close> values: the zero address, or an address given by its
  canonical text. A node and a user profile carry the fields the code reads.
\<close>

datatype Addr = ZeroAddr | IP string

record AddrPort =
  Addr :: Addr
  Port :: nat

record tailNode =
  ID :: int
  StableID :: string

record UserProfile =
  LoginName :: string

record User =
  Uid :: string
  Gid :: string
  Username :: string

record NetworkMap =
  SSHPolicy :: "SSHPolicy option"
  SelfNode :: "tailNode option"

text \<open>
  The answer of an HTTP round trip: a transport error, or a response with its status
  code and text, its \<open>Etag\<close> header, the body bytes the server delivers and the error
  that ends the body early, if any.
\<close>

record Response =
  StatusCode :: nat
  Status :: string
  Etag :: string
  Body :: string
  BodyErr :: "error option"

datatype DoResult = DoError error | DoResponse Response

text \<open>What a session does towards its client: a text written to the session, and
  \<open>Exit\<close> with a status code.\<close>

datatype event = Write string | Exit int

text \<open>
  Everything the code calls and these files do not define is a field of \<open>env\<close>:
  library functions (\<open>base64.StdEncoding.DecodeString\<close> with its error dropped as the
  caller drops it, \<open>strings.TrimSpace\<close>, \<open>netip.ParseAddr\<close> with the zero address on
  failure, \<open>tsaddr.IsTailscaleIP\<close>, \<open>url.QueryEscape\<close>, \<open>fmt.Sprint\<close> of an integer,
  \<open>user.Lookup\<close>, \<open>User.GroupIds\<close>, \<open>os.Geteuid\<close>, the error of
  \<open>http.NewRequestWithContext\<close> for a URL), the local backend (\<open>ShouldRunSSH\<close>,
  \<open>NetMap\<close>, \<open>WhoIs\<close>, \<open>DoNoiseRequest\<close>), the environment knobs with the policy file
  read and parsed (\<open>None\<close> when reading or parsing fails), the JSON decoding of an
  \<open>SSHAction\<close> (\<open>None\<close> when it fails), and the network. The
  \<open>n\<close>-th request through the public-key client, for a URL and an \<open>If-None-Match\<close>
  value (\<open>''''\<close>: no such header), has the answer \<open>pubKeyDo n url etag\<close>, together with
  the reading of the clock when it arrives. The \<open>n\<close>-th request over the control
  transport has the answer \<open>DoNoiseRequest n url\<close>, and \<open>ctxErr n\<close> is what \<open>ctx.Err()\<close>
  gives just before it. \<open>launchAndWait\<close> stands for the rest of \<open>sshSession.run\<close> from
  \<open>DisablePTYEmulation\<close> on (agent forwarding, recording, the child process and its
  streams): the events it shows to the client, the exit included.
\<close>

record env =
  DecodeString :: "string \<Rightarrow> string"
  TrimSpace :: "string \<Rightarrow> string"
  ParseAddr :: "string \<Rightarrow> Addr"
  IsTailscaleIP :: "Addr \<Rightarrow> bool"
  QueryEscape :: "string \<Rightarrow> string"
  Sprint :: "int \<Rightarrow> string"
  Lookup :: "string \<Rightarrow> error + User"
  GroupIds :: "User \<Rightarrow> error + string list"
  Geteuid :: int
  NewRequest :: "string \<Rightarrow> error option"
  ShouldRunSSH :: bool
  NetMap :: "NetworkMap option"
  WhoIs :: "AddrPort \<Rightarrow> (tailNode option \<times> UserProfile) option"
  SSHIgnoreTailnetPolicy :: bool
  SSHPolicyFile :: string
  ReadPolicyFile :: "string \<Rightarrow> SSHPolicy option"
  pubKeyDo :: "nat \<Rightarrow> string \<Rightarrow> string \<Rightarrow> DoResult \<times> time"
  DoNoiseRequest :: "nat \<Rightarrow> string \<Rightarrow> DoResult"
  ctxErr :: "nat \<Rightarrow> error option"
  DecodeAction :: "string \<Rightarrow> SSHAction option"
  launchAndWait :: "string \<Rightarrow> event list"

subsection \<open>The server and its public-key cache\<close>

record pubKeyCacheEntry =
  lines :: "string list"
  etag :: string
  at :: time

text \<open>
  The fields of \<open>server\<close> under its mutex, the reading \<open>srv.now()\<close> of its clock, and
  two counters that are not in the code: the requests sent so far through the
  public-key client and over the control transport. The wait group is its counter.
\<close>

record server =
  timeNow :: time
  sessionWaitGroup :: int
  activeConns :: "nat set"
  fetchPublicKeysCache :: "string \<rightharpoonup> pubKeyCacheEntry"
  shutdownCalled :: bool
  pubKeyRequests :: nat
  noiseRequests :: nat

definition now :: "server \<Rightarrow> time" where
  "now srv = timeNow srv"

definition Second :: time where
  "Second = 1000000000"

definition Minute :: time where
  "Minute = 60 * Second"

definition pubKeyCacheDuration :: time where
  "pubKeyCacheDuration = Minute"

definition pubKeyCacheEmptyDuration :: time where
  "pubKeyCacheEmptyDuration = 15 * Second"

text \<open>The zero value of \<open>pubKeyCacheEntry\<close>, which a missing key reads as.\<close>

definition zeroEntry :: pubKeyCacheEntry where
  "zeroEntry = \<lparr>lines = [], etag = '''', at = 0\<rparr>"

text \<open>The clean-up loop of \<open>fetchPublicKeysURLCached\<close>: \<open>delete(m, k)\<close> for every key
  whose entry has \<open>ce.at.Before(tooOld)\<close>.\<close>

definition deleteBefore ::
  "time \<Rightarrow> (string \<rightharpoonup> pubKeyCacheEntry) \<Rightarrow> (string \<rightharpoonup> pubKeyCacheEntry)" where
  "deleteBefore tooOld m =
     (\<lambda>k. case m k of
            None \<Rightarrow> None
          | Some ce \<Rightarrow> if at ce < tooOld then None else Some ce)"

definition fetchPublicKeysURLCached ::
  "server \<Rightarrow> string \<Rightarrow> (pubKeyCacheEntry \<times> bool) \<times> server" where
  "fetchPublicKeysURLCached srv url =
     (let m = fetchPublicKeysCache srv;
          srv1 = (if card (dom m) > 50
                  then (let tooOld = now srv + pubKeyCacheDuration * 10
                        in srv\<lparr>fetchPublicKeysCache := deleteBefore tooOld m\<rparr>)
                  else srv)
      in case fetchPublicKeysCache srv1 url of
           None \<Rightarrow> ((zeroEntry, False), srv1)
         | Some ce \<Rightarrow>
             (let maxAge = (if length (lines ce) = 0 then pubKeyCacheEmptyDuration
                            else pubKeyCacheDuration)
              in ((ce, now srv1 - at ce < maxAge), srv1)))"

text \<open>\<open>strings.Split(s, sep)\<close> for a one-byte separator; a text without the separator
  (also the empty text) gives the one-element list of itself.\<close>

fun Split :: "string \<Rightarrow> char \<Rightarrow> string list" where
  "Split [] sep = [[]]"
| "Split (c # cs) sep =
     (if c = sep then [] # Split cs sep
      else (case Split cs sep of
              [] \<Rightarrow> [[c]]
            | x # xs \<Rightarrow> (c # x) # xs))"

text \<open>\<open>io.ReadAll(io.LimitReader(res.Body, n))\<close>: at most \<open>n\<close> bytes; the body's error
  shows only when the body ends before \<open>n\<close> bytes.\<close>

definition ReadAllLimited :: "Response \<Rightarrow> nat \<Rightarrow> string \<times> error option" where
  "ReadAllLimited res n =
     (take n (Body res), if length (Body res) < n then BodyErr res else None)"

definition StatusOK :: nat where
  "StatusOK = 200"

definition StatusNotModified :: nat where
  "StatusNotModified = 304"

definition fetchPublicKeysURL ::
  "env \<Rightarrow> server \<Rightarrow> string \<Rightarrow> (string list \<times> error option) \<times> server" where
  "fetchPublicKeysURL e srv url =
     (if \<not> HasPrefix url ''https://'' then (([], Some (Errorf ''invalid URL scheme'')), srv)
      else
        case fetchPublicKeysURLCached srv url of
          ((ce, ok), srv1) \<Rightarrow>
            if ok then ((lines ce, None), srv1)
            else
              (case NewRequest e url of
                 Some err \<Rightarrow> (([], Some err), srv1)
               | None \<Rightarrow>
                   (case pubKeyDo e (pubKeyRequests srv1) url (etag ce) of
                      (answer, arrival) \<Rightarrow>
                        let srv2 = srv1\<lparr>timeNow := arrival,
                                        pubKeyRequests := pubKeyRequests srv1 + 1\<rparr>
                        in (case answer of
                              DoError err \<Rightarrow> (([], Some err), srv2)
                            | DoResponse res \<Rightarrow>
                                (let (ls, tag, err) =
                                       (if StatusCode res = StatusNotModified
                                        then (lines ce, etag ce, None)
                                        else if StatusCode res = StatusOK
                                        then (case ReadAllLimited res 4096 of
                                                (all, rerr) \<Rightarrow>
                                                  let s = TrimSpace e all
                                                  in (if s \<noteq> '''' then Split s CHR 0x0A else [],
                                                      Etag res, rerr))
                                        else ([], '''',
                                              Some (Errorf (''unexpected status '' @ Status res))))
                                 in ((ls, err),
                                     srv2\<lparr>fetchPublicKeysCache :=
                                            (fetchPublicKeysCache srv2)
                                              (url \<mapsto> \<lparr>lines = ls, etag = tag,
                                                         at = now srv2\<rparr>)\<rparr>))))))"

subsection \<open>Connections\<close>

text \<open>
  What the code reads of \<open>ssh.Context\<close>: the user name, the two addresses after
  \<open>toIPPort\<close> (the zero value when the conversion fails), the session id, and for each
  banner text the error of \<open>SendAuthBanner\<close>, if any.
\<close>

record Context =
  ctxUser :: string
  RemoteAddr :: AddrPort
  LocalAddr :: AddrPort
  SessionID :: string
  SendAuthBanner :: "string \<Rightarrow> error option"

record sshConnInfo =
  sshUser :: string
  src :: AddrPort
  dst :: AddrPort
  node :: "tailNode option"
  uprof :: UserProfile

text \<open>A session as the connection holds it. Two sessions are the same pointer when
  they are the same record.\<close>

record sshSession =
  sharedID :: string

text \<open>
  The fields of \<open>conn\<close>; pointers that may be nil are options. Three fields are not
  in the code: \<open>connPtr\<close> is the address of the connection (the key of
  \<open>srv.activeConns\<close>), \<open>banners\<close> lists the banners sent so far, and \<open>closed\<close> says that
  \<open>Close\<close> of the embedded \<open>ssh.Server\<close> was called.
\<close>

record conn =
  connPtr :: nat
  insecureSkipTailscaleAuth :: bool
  idH :: string
  connID :: string
  anyPasswordIsOkay :: bool
  action0 :: "SSHAction option"
  currentAction :: "SSHAction option"
  finalAction :: "SSHAction option"
  finalActionErr :: "error option"
  info :: "sshConnInfo option"
  localUser :: "User option"
  userGroupIDs :: "string list"
  pubKey :: "PublicKey option"
  sessions :: "sshSession list"
  banners :: "string list"
  closed :: bool

definition setInfo :: "env \<Rightarrow> Context \<Rightarrow> conn \<Rightarrow> error option \<times> conn" where
  "setInfo e ctx c =
     (if info c \<noteq> None then (None, c)
      else
        let ci = \<lparr>sshUser = TrimSuffix (ctxUser ctx) forcePasswordSuffix,
                  src = RemoteAddr ctx, dst = LocalAddr ctx,
                  node = None, uprof = \<lparr>LoginName = ''''\<rparr>\<rparr>
        in if \<not> IsTailscaleIP e (Addr (dst ci))
           then (Some (Errorf ''tailssh: rejecting non-Tailscale local address''), c)
           else if \<not> IsTailscaleIP e (Addr (src ci))
           then (Some (Errorf ''tailssh: rejecting non-Tailscale remote address''), c)
           else (case WhoIs e (src ci) of
                   None \<Rightarrow> (Some (Errorf ''unknown Tailscale identity from src''), c)
                 | Some (n, u) \<Rightarrow>
                     (None, c\<lparr>idH := SessionID ctx,
                              info := Some (ci\<lparr>node := n, uprof := u\<rparr>)\<rparr>)))"

subsection \<open>Policy evaluation\<close>

definition sshPolicy :: "env \<Rightarrow> SSHPolicy option" where
  "sshPolicy e =
     (if \<not> ShouldRunSSH e then None
      else (case NetMap e of
              None \<Rightarrow> None
            | Some nm \<Rightarrow>
                (case SSHPolicy nm of
                   Some pol \<Rightarrow>
                     if \<not> SSHIgnoreTailnetPolicy e then Some pol
                     else if SSHPolicyFile e \<noteq> '''' then ReadPolicyFile e (SSHPolicyFile e)
                     else None
                 | None \<Rightarrow>
                     if SSHPolicyFile e \<noteq> '''' then ReadPolicyFile e (SSHPolicyFile e)
                     else None)))"

definition ruleExpired :: "server \<Rightarrow> SSHRule \<Rightarrow> bool" where
  "ruleExpired srv r =
     (case RuleExpires r of None \<Rightarrow> False | Some t \<Rightarrow> t < now srv)"

definition errNilRule :: error where "errNilRule = Errorf ''nil rule''"
definition errNilAction :: error where "errNilAction = Errorf ''nil action''"
definition errRuleExpired :: error where "errRuleExpired = Errorf ''rule expired''"
definition errPrincipalMatch :: error where
  "errPrincipalMatch = Errorf ''principal didn't match''"
definition errUserMatch :: error where "errUserMatch = Errorf ''user didn't match''"
definition errInvalidConn :: error where
  "errInvalidConn = Errorf ''invalid connection state''"

text \<open>Both callers of \<open>principalMatchesTailscaleIdentity\<close> have checked that \<open>c.info\<close>
  is set; the function takes the connection's info. A connection is never the nil
  pointer here, so the check \<open>c == nil\<close> of \<open>matchRule\<close> has no branch.\<close>

definition principalMatchesTailscaleIdentity ::
  "env \<Rightarrow> sshConnInfo \<Rightarrow> SSHPrincipal \<Rightarrow> bool" where
  "principalMatchesTailscaleIdentity e ci p =
     (if Any p then True
      else if Node p \<noteq> '''' \<and> (case node ci of None \<Rightarrow> False
                                 | Some n \<Rightarrow> Node p = StableID n) then True
      else if NodeIP p \<noteq> '''' \<and> ParseAddr e (NodeIP p) = Addr (src ci) then True
      else if UserLogin p \<noteq> '''' \<and> LoginName (uprof ci) = UserLogin p then True
      else False)"

text \<open>
  \<open>strings.NewReplacer(pairs).Replace(s)\<close> for non-empty old texts: from left to
  right, at each position the first pair in argument order whose old text starts
  there is replaced, and matches do not overlap. The number counts the bytes of a
  match still to be skipped.
\<close>

fun ReplaceFrom :: "(string \<times> string) list \<Rightarrow> nat \<Rightarrow> string \<Rightarrow> string" where
  "ReplaceFrom pairs skip [] = []"
| "ReplaceFrom pairs (Suc skip) (c # cs) = ReplaceFrom pairs skip cs"
| "ReplaceFrom pairs 0 (c # cs) =
     (case find (\<lambda>(old, new). old \<noteq> [] \<and> HasPrefix (c # cs) old) pairs of
        Some (old, new) \<Rightarrow> new @ ReplaceFrom pairs (length old - 1) cs
      | None \<Rightarrow> c # ReplaceFrom pairs 0 cs)"

definition Replace :: "(string \<times> string) list \<Rightarrow> string \<Rightarrow> string" where
  "Replace pairs s = ReplaceFrom pairs 0 s"

definition expandPublicKeyURL :: "sshConnInfo \<Rightarrow> string \<Rightarrow> string" where
  "expandPublicKeyURL ci pubKeyURL =
     (if CHR ''$'' \<notin> set pubKeyURL then pubKeyURL
      else
        let loginName = LoginName (uprof ci);
            localPart = fst (Cut loginName CHR ''@'')
        in Replace [(''$LOGINNAME_EMAIL'', loginName),
                    (''$LOGINNAME_LOCALPART'', localPart)] pubKeyURL)"

definition principalMatchesPubKey ::
  "env \<Rightarrow> sshConnInfo \<Rightarrow> server \<Rightarrow> SSHPrincipal \<Rightarrow> PublicKey option
     \<Rightarrow> (bool \<times> error option) \<times> server" where
  "principalMatchesPubKey e ci srv p clientPubKey =
     (if length (PubKeys p) = 0 then ((True, None), srv)
      else
        case clientPubKey of
          None \<Rightarrow> ((False, None), srv)
        | Some k \<Rightarrow>
            if length (PubKeys p) = 1 \<and> HasPrefix (hd (PubKeys p)) ''https://''
            then (case fetchPublicKeysURL e srv (expandPublicKeyURL ci (hd (PubKeys p))) of
                    ((knownKeys, Some err), srv') \<Rightarrow> ((False, Some err), srv')
                  | ((knownKeys, None), srv') \<Rightarrow>
                      ((list_ex (pubKeyMatchesAuthorizedKey (DecodeString e) k) knownKeys,
                        None), srv'))
            else ((list_ex (pubKeyMatchesAuthorizedKey (DecodeString e) k) (PubKeys p),
                   None), srv))"

definition principalMatches ::
  "env \<Rightarrow> sshConnInfo \<Rightarrow> server \<Rightarrow> SSHPrincipal \<Rightarrow> PublicKey option
     \<Rightarrow> (bool \<times> error option) \<times> server" where
  "principalMatches e ci srv p k =
     (if \<not> principalMatchesTailscaleIdentity e ci p then ((False, None), srv)
      else principalMatchesPubKey e ci srv p k)"

fun anyPrincipalMatches ::
  "env \<Rightarrow> sshConnInfo \<Rightarrow> server \<Rightarrow> SSHPrincipal option list \<Rightarrow> PublicKey option
     \<Rightarrow> (bool \<times> error option) \<times> server" where
  "anyPrincipalMatches e ci srv [] k = ((False, None), srv)"
| "anyPrincipalMatches e ci srv (None # ps) k = anyPrincipalMatches e ci srv ps k"
| "anyPrincipalMatches e ci srv (Some p # ps) k =
     (case principalMatches e ci srv p k of
        ((ok, Some err), srv') \<Rightarrow> ((False, Some err), srv')
      | ((True, None), srv') \<Rightarrow> ((True, None), srv')
      | ((False, None), srv') \<Rightarrow> anyPrincipalMatches e ci srv' ps k)"

definition matchRule ::
  "env \<Rightarrow> server \<Rightarrow> conn \<Rightarrow> SSHRule option \<Rightarrow> PublicKey option
     \<Rightarrow> (error + SSHAction \<times> string) \<times> server" where
  "matchRule e srv c r k =
     (case info c of
        None \<Rightarrow> (Inl errInvalidConn, srv)
      | Some ci \<Rightarrow>
          (case r of
             None \<Rightarrow> (Inl errNilRule, srv)
           | Some r \<Rightarrow>
               (case Action r of
                  None \<Rightarrow> (Inl errNilAction, srv)
                | Some a \<Rightarrow>
                    if ruleExpired srv r then (Inl errRuleExpired, srv)
                    else
                      let localUserName = (if \<not> Reject a
                                       then mapLocalUser (SSHUsers r) (sshUser ci) else '''')
                      in if \<not> Reject a \<and> localUserName = '''' then (Inl errUserMatch, srv)
                         else (case anyPrincipalMatches e ci srv (Principals r) k of
                                 ((ok, Some err), srv') \<Rightarrow> (Inl err, srv')
                               | ((False, None), srv') \<Rightarrow> (Inl errPrincipalMatch, srv')
                               | ((True, None), srv') \<Rightarrow> (Inr (a, localUserName), srv')))))"

fun evalSSHPolicyRules ::
  "env \<Rightarrow> server \<Rightarrow> conn \<Rightarrow> SSHRule option list \<Rightarrow> PublicKey option
     \<Rightarrow> (SSHAction \<times> string) option \<times> server" where
  "evalSSHPolicyRules e srv c [] k = (None, srv)"
| "evalSSHPolicyRules e srv c (r # rs) k =
     (case matchRule e srv c r k of
        (Inr (a, localUserName), srv') \<Rightarrow> (Some (a, localUserName), srv')
      | (Inl err, srv') \<Rightarrow> evalSSHPolicyRules e srv' c rs k)"

definition evalSSHPolicy ::
  "env \<Rightarrow> server \<Rightarrow> conn \<Rightarrow> SSHPolicy \<Rightarrow> PublicKey option
     \<Rightarrow> (SSHAction \<times> string) option \<times> server" where
  "evalSSHPolicy e srv c pol k = evalSSHPolicyRules e srv c (Rules pol) k"

definition evaluatePolicy ::
  "env \<Rightarrow> server \<Rightarrow> conn \<Rightarrow> PublicKey option
     \<Rightarrow> (error + SSHAction \<times> string) \<times> server" where
  "evaluatePolicy e srv c k =
     (case sshPolicy e of
        None \<Rightarrow> (Inl (Errorf ''tailssh: rejecting connection; no SSH policy''), srv)
      | Some pol \<Rightarrow>
          (case evalSSHPolicy e srv c pol k of
             (None, srv') \<Rightarrow>
               (Inl (Errorf ''tailssh: rejecting connection; no matching policy''), srv')
           | (Some (a, localUserName), srv') \<Rightarrow> (Inr (a, localUserName), srv')))"

text \<open>
  \<open>havePubKeyPolicy\<close>: its two loops, inner first. The loops read \<open>r.RuleExpires\<close> and
  \<open>p.PubKeys\<close> without a nil check, so a nil rule or principal that is reached is a
  nil pointer dereference.
\<close>

fun havePubKeyPolicy_principals ::
  "env \<Rightarrow> sshConnInfo \<Rightarrow> SSHPrincipal option list \<Rightarrow> bool outcome" where
  "havePubKeyPolicy_principals e ci [] = Returns False"
| "havePubKeyPolicy_principals e ci (None # ps) = Panic ''nil pointer dereference''"
| "havePubKeyPolicy_principals e ci (Some p # ps) =
     (if length (PubKeys p) > 0 \<and> principalMatchesTailscaleIdentity e ci p
      then Returns True
      else havePubKeyPolicy_principals e ci ps)"

fun havePubKeyPolicy_rules ::
  "env \<Rightarrow> server \<Rightarrow> sshConnInfo \<Rightarrow> SSHRule option list \<Rightarrow> bool outcome" where
  "havePubKeyPolicy_rules e srv ci [] = Returns False"
| "havePubKeyPolicy_rules e srv ci (None # rs) = Panic ''nil pointer dereference''"
| "havePubKeyPolicy_rules e srv ci (Some r # rs) =
     (if ruleExpired srv r then havePubKeyPolicy_rules e srv ci rs
      else if mapLocalUser (SSHUsers r) (sshUser ci) = ''''
      then havePubKeyPolicy_rules e srv ci rs
      else (case havePubKeyPolicy_principals e ci (Principals r) of
              Panic msg \<Rightarrow> Panic msg
            | Returns True \<Rightarrow> Returns True
            | Returns False \<Rightarrow> havePubKeyPolicy_rules e srv ci rs))"

definition havePubKeyPolicy :: "env \<Rightarrow> server \<Rightarrow> conn \<Rightarrow> bool outcome" where
  "havePubKeyPolicy e srv c =
     (case info c of
        None \<Rightarrow> Panic ''havePubKeyPolicy called before setInfo''
      | Some ci \<Rightarrow>
          (case sshPolicy e of
             None \<Rightarrow> Returns False
           | Some pol \<Rightarrow> havePubKeyPolicy_rules e srv ci (Rules pol)))"

text \<open>The banner is sent, and listed, unless sending fails.\<close>

definition sendBanner :: "Context \<Rightarrow> string \<Rightarrow> conn \<Rightarrow> error option \<times> conn" where
  "sendBanner ctx msg c =
     (case SendAuthBanner ctx msg of
        Some err \<Rightarrow> (Some err, c)
      | None \<Rightarrow> (None, c\<lparr>banners := banners c @ [msg]\<rparr>))"

definition doPolicyAuth ::
  "env \<Rightarrow> Context \<Rightarrow> PublicKey option \<Rightarrow> server \<Rightarrow> conn
     \<Rightarrow> (error option \<times> server \<times> conn) outcome" where
  "doPolicyAuth e ctx k srv c =
     (case setInfo e ctx c of
        (Some err, c1) \<Rightarrow> Returns (Some ErrDenied, srv, c1)
      | (None, c1) \<Rightarrow>
          (case evaluatePolicy e srv c1 k of
             (Inl err, srv1) \<Rightarrow>
               if k = None
               then (case havePubKeyPolicy e srv1 c1 of
                       Panic msg \<Rightarrow> Panic msg
                     | Returns True \<Rightarrow> Returns (Some errPubKeyRequired, srv1, c1)
                     | Returns False \<Rightarrow> Returns (Some (DeniedBecause err), srv1, c1))
               else Returns (Some (DeniedBecause err), srv1, c1)
           | (Inr (a, localUserName), srv1) \<Rightarrow>
               let c2 = c1\<lparr>action0 := Some a, currentAction := Some a, pubKey := k\<rparr>;
                   (berr, c3) = (if Message a \<noteq> '''' then sendBanner ctx (Message a) c2
                                 else (None, c2))
               in (case berr of
                     Some err \<Rightarrow> Returns (Some (Wrap ''SendBanner: '' err), srv1, c3)
                   | None \<Rightarrow>
                       if Accept a \<or> HoldAndDelegate a \<noteq> ''''
                       then
                         (let c4 = (if Accept a then c3\<lparr>finalAction := Some a\<rparr> else c3)
                          in case Lookup e localUserName of
                               Inl err \<Rightarrow>
                                 Returns (Some err, srv1,
                                   snd (sendBanner ctx
                                          (''failed to look up '' @ localUserName
                                             @ [CHR 0x0D, CHR 0x0A]) c4))
                             | Inr lu \<Rightarrow>
                                 (case GroupIds e lu of
                                    Inl err \<Rightarrow> Returns (Some err, srv1, c4)
                                  | Inr gids \<Rightarrow>
                                      Returns (None, srv1,
                                        c4\<lparr>userGroupIDs := gids, localUser := Some lu\<rparr>)))
                       else if Reject a
                       then Returns (Some ErrDenied, srv1, c3\<lparr>finalAction := Some a\<rparr>)
                       else Returns (Some ErrDenied, srv1, c3))))"

subsection \<open>Resolving the action chain\<close>

text \<open>\<open>Addr.String()\<close>: the canonical text; the zero address prints as \<open>invalid IP\<close>.\<close>

fun AddrString :: "Addr \<Rightarrow> string" where
  "AddrString ZeroAddr = ''invalid IP''"
| "AddrString (IP s) = s"

text \<open>\<open>expandDelegateURLLocked\<close> reads \<open>c.info\<close>, \<open>ci.node\<close>, \<open>c.localUser\<close> and, with a
  network map, \<open>nm.SelfNode\<close> without a nil check.\<close>

definition expandDelegateURLLocked :: "env \<Rightarrow> conn \<Rightarrow> string \<Rightarrow> string outcome" where
  "expandDelegateURLLocked e c actionURL =
     (case (case NetMap e of
              None \<Rightarrow> Some ''''
            | Some nm \<Rightarrow> (case SelfNode nm of
                           None \<Rightarrow> None
                         | Some self \<Rightarrow> Some (Sprint e (ID self)))) of
        None \<Rightarrow> Panic ''nil pointer dereference''
      | Some dstNodeID \<Rightarrow>
          (case (info c, localUser c) of
             (Some ci, Some lu) \<Rightarrow>
               (case node ci of
                  None \<Rightarrow> Panic ''nil pointer dereference''
                | Some n \<Rightarrow>
                    Returns
                      (Replace
                         [(''$SRC_NODE_IP'', QueryEscape e (AddrString (Addr (src ci)))),
                          (''$SRC_NODE_ID'', Sprint e (ID n)),
                          (''$DST_NODE_IP'', QueryEscape e (AddrString (Addr (dst ci)))),
                          (''$DST_NODE_ID'', dstNodeID),
                          (''$SSH_USER'', QueryEscape e (sshUser ci)),
                          (''$LOCAL_USER'', QueryEscape e (Username lu))]
                         actionURL))
           | _ \<Rightarrow> Panic ''nil pointer dereference''))"

text \<open>
  \<open>fetchSSHAction\<close>: the loop asks again after a transport error, a status other than
  200 and a body that does not decode, and ends when the context is done, when the
  request cannot be built, or with the decoded action. It need not end: the value
  \<open>None\<close> stands for a loop that runs forever. The waits of the backoff are not
  modelled.
\<close>

partial_function (option) fetchSSHAction ::
  "env \<Rightarrow> string \<Rightarrow> server \<Rightarrow> ((error + SSHAction) \<times> server) option" where
  "fetchSSHAction e url srv =
     (case ctxErr e (noiseRequests srv) of
        Some err \<Rightarrow> Some (Inl err, srv)
      | None \<Rightarrow>
          (case NewRequest e url of
             Some err \<Rightarrow> Some (Inl err, srv)
           | None \<Rightarrow>
               (case DoNoiseRequest e (noiseRequests srv) url of
                  DoError err \<Rightarrow>
                    fetchSSHAction e url (srv\<lparr>noiseRequests := noiseRequests srv + 1\<rparr>)
                | DoResponse res \<Rightarrow>
                    if StatusCode res \<noteq> 200
                    then fetchSSHAction e url (srv\<lparr>noiseRequests := noiseRequests srv + 1\<rparr>)
                    else (case DecodeAction e (Body res) of
                            None \<Rightarrow>
                              fetchSSHAction e url
                                (srv\<lparr>noiseRequests := noiseRequests srv + 1\<rparr>)
                          | Some a \<Rightarrow>
                              Some (Inr a,
                                    srv\<lparr>noiseRequests := noiseRequests srv + 1\<rparr>)))))"

text \<open>The deferred function of \<open>resolveNextAction\<close>, run on its way out with the
  results \<open>action\<close> and \<open>err\<close>.\<close>

definition resolveNextAction_deferred ::
  "SSHAction option \<Rightarrow> error option \<Rightarrow> conn \<Rightarrow> conn" where
  "resolveNextAction_deferred action err c =
     (let c1 = (case action of
                  None \<Rightarrow> c
                | Some a \<Rightarrow>
                    let c' = c\<lparr>currentAction := Some a\<rparr>
                    in if Accept a \<or> Reject a then c'\<lparr>finalAction := Some a\<rparr> else c')
      in case err of
           None \<Rightarrow> c1
         | Some x \<Rightarrow> c1\<lparr>finalActionErr := Some x\<rparr>)"

definition resolveNextAction ::
  "env \<Rightarrow> server \<Rightarrow> conn
     \<Rightarrow> ((SSHAction option \<times> error option) \<times> server \<times> conn) outcome option" where
  "resolveNextAction e srv c =
     (if finalAction c \<noteq> None \<or> finalActionErr c \<noteq> None
      then Some (Returns ((finalAction c, finalActionErr c), srv, c))
      else
        case currentAction c of
          None \<Rightarrow> Some (Panic ''nil pointer dereference'')
        | Some action \<Rightarrow>
            if Accept action \<or> Reject action
            then Some (Returns ((Some action, None), srv,
                                resolveNextAction_deferred (Some action) None c))
            else if HoldAndDelegate action = ''''
            then (let err = Errorf
                    ''reached Action that lacked Accept, Reject, and HoldAndDelegate''
                  in Some (Returns ((None, Some err), srv,
                                    resolveNextAction_deferred None (Some err) c)))
            else
              (case expandDelegateURLLocked e c (HoldAndDelegate action) of
                 Panic msg \<Rightarrow> Some (Panic msg)
               | Returns url \<Rightarrow>
                   (case fetchSSHAction e url srv of
                      None \<Rightarrow> None
                    | Some (Inl ferr, srv') \<Rightarrow>
                        (let err = Wrap (''fetching SSHAction from '' @ url @ '': '') ferr
                         in Some (Returns ((None, Some err), srv',
                                           resolveNextAction_deferred None (Some err) c)))
                    | Some (Inr nextAction, srv') \<Rightarrow>
                        Some (Returns ((Some nextAction, None), srv',
                                resolveNextAction_deferred (Some nextAction) None c)))))"

text \<open>The loop of \<open>isAuthorized\<close>, from the action at hand.\<close>

partial_function (option) isAuthorized_loop ::
  "env \<Rightarrow> Context \<Rightarrow> SSHAction \<Rightarrow> server \<Rightarrow> conn
     \<Rightarrow> (error option \<times> server \<times> conn) outcome option" where
  "isAuthorized_loop e ctx action srv c =
     (if Accept action then Some (Returns (None, srv, c))
      else if Reject action \<or> HoldAndDelegate action = ''''
      then Some (Returns (Some ErrDenied, srv, c))
      else
        (case resolveNextAction e srv c of
           None \<Rightarrow> None
         | Some (Panic msg) \<Rightarrow> Some (Panic msg)
         | Some (Returns ((next, Some err), srv', c')) \<Rightarrow> Some (Returns (Some err, srv', c'))
         | Some (Returns ((None, None), srv', c')) \<Rightarrow> Some (Panic ''nil pointer dereference'')
         | Some (Returns ((Some a, None), srv', c')) \<Rightarrow>
             if Message a \<noteq> ''''
             then (case sendBanner ctx (Message a) c' of
                     (Some err, c'') \<Rightarrow> Some (Returns (Some err, srv', c''))
                   | (None, c'') \<Rightarrow> isAuthorized_loop e ctx a srv' c'')
             else isAuthorized_loop e ctx a srv' c'))"

definition isAuthorized ::
  "env \<Rightarrow> Context \<Rightarrow> server \<Rightarrow> conn \<Rightarrow> (error option \<times> server \<times> conn) outcome option" where
  "isAuthorized e ctx srv c =
     (case currentAction c of
        None \<Rightarrow> Some (Panic ''nil pointer dereference'')
      | Some action \<Rightarrow> isAuthorized_loop e ctx action srv c)"

subsection \<open>The authentication callbacks\<close>

definition NoClientAuthCallback ::
  "env \<Rightarrow> Context \<Rightarrow> server \<Rightarrow> conn \<Rightarrow> (error option \<times> server \<times> conn) outcome option" where
  "NoClientAuthCallback e ctx srv c =
     (if insecureSkipTailscaleAuth c then Some (Returns (None, srv, c))
      else
        case doPolicyAuth e ctx None srv c of
          Panic msg \<Rightarrow> Some (Panic msg)
        | Returns (Some err, srv1, c1) \<Rightarrow> Some (Returns (Some err, srv1, c1))
        | Returns (None, srv1, c1) \<Rightarrow>
            (case isAuthorized e ctx srv1 c1 of
               None \<Rightarrow> None
             | Some (Panic msg) \<Rightarrow> Some (Panic msg)
             | Some (Returns (Some err, srv2, c2)) \<Rightarrow> Some (Returns (Some err, srv2, c2))
             | Some (Returns (None, srv2, c2)) \<Rightarrow>
                 if HasSuffix (ctxUser ctx) forcePasswordSuffix
                 then Some (Returns (Some (Errorf ''any password please''), srv2,
                                     c2\<lparr>anyPasswordIsOkay := True\<rparr>))
                 else Some (Returns (None, srv2, c2))))"

definition nextAuthMethodCallback :: "conn \<Rightarrow> error list \<Rightarrow> string list" where
  "nextAuthMethodCallback c prevErrors =
     (if anyPasswordIsOkay c then [''password'']
      else if length prevErrors > 0 \<and> last prevErrors = errPubKeyRequired
      then [''publickey'']
      else [])
     @ [''tailscale'']"

definition fakePasswordHandler :: "conn \<Rightarrow> Context \<Rightarrow> string \<Rightarrow> bool" where
  "fakePasswordHandler c ctx password = anyPasswordIsOkay c"

definition PublicKeyHandler ::
  "env \<Rightarrow> Context \<Rightarrow> PublicKey \<Rightarrow> server \<Rightarrow> conn
     \<Rightarrow> (error option \<times> server \<times> conn) outcome option" where
  "PublicKeyHandler e ctx k srv c =
     (case doPolicyAuth e ctx (Some k) srv c of
        Panic msg \<Rightarrow> Some (Panic msg)
      | Returns (Some err, srv1, c1) \<Rightarrow> Some (Returns (Some err, srv1, c1))
      | Returns (None, srv1, c1) \<Rightarrow> isAuthorized e ctx srv1 c1)"



subsection \<open>Sessions and the shutdown fence\<close>

text \<open>\<open>newSSHSession\<close>: the shared id is made of the formatted time and the hex text of
  five random bytes, both given here.\<close>

definition newSSHSession :: "string \<Rightarrow> string \<Rightarrow> sshSession" where
  "newSSHSession stamp hex = \<lparr>sharedID = ''sess-'' @ stamp @ ''-'' @ hex\<rparr>"

definition attachSession :: "server \<Rightarrow> conn \<Rightarrow> sshSession \<Rightarrow> (server \<times> conn) outcome" where
  "attachSession srv c ss =
     (let srv1 = srv\<lparr>sessionWaitGroup := sessionWaitGroup srv + 1\<rparr>
      in if sharedID ss = '''' then Panic ''empty sharedID''
         else Returns (srv1, c\<lparr>sessions := sessions c @ [ss]\<rparr>))"

definition detachSession :: "server \<Rightarrow> conn \<Rightarrow> sshSession \<Rightarrow> server \<times> conn" where
  "detachSession srv c ss =
     (srv\<lparr>sessionWaitGroup := sessionWaitGroup srv - 1\<rparr>,
      c\<lparr>sessions := remove1 ss (sessions c)\<rparr>)"

definition attachSessionToConnIfNotShutdown ::
  "server \<Rightarrow> conn \<Rightarrow> sshSession \<Rightarrow> (bool \<times> server \<times> conn) outcome" where
  "attachSessionToConnIfNotShutdown srv c ss =
     (if shutdownCalled srv then Returns (False, srv, c)
      else (case attachSession srv c ss of
              Panic msg \<Rightarrow> Panic msg
            | Returns (srv', c') \<Rightarrow> Returns (True, srv', c')))"

definition trackActiveConn :: "server \<Rightarrow> conn \<Rightarrow> bool \<Rightarrow> server" where
  "trackActiveConn srv c add =
     (if add then srv\<lparr>activeConns := insert (connPtr c) (activeConns srv)\<rparr>
      else srv\<lparr>activeConns := activeConns srv - {connPtr c}\<rparr>)"

text \<open>\<open>Shutdown\<close>, up to its wait for the sessions: the flag is set and every active
  connection is closed. Seen from one connection \<open>c\<close>.\<close>

definition Shutdown :: "server \<Rightarrow> conn \<Rightarrow> server \<times> conn" where
  "Shutdown srv c =
     (srv\<lparr>shutdownCalled := True\<rparr>,
      if connPtr c \<in> activeConns srv then c\<lparr>closed := True\<rparr> else c)"

text \<open>
  \<open>sshSession.run\<close>, as the events the client sees. After the fence the code reads
  \<open>ss.conn.finalAction.SessionDuration\<close> and, when the process is not root,
  \<open>lu.Uid\<close>; the session is detached on every way out after the attach. The timer of
  the session duration belongs to what \<open>launchAndWait\<close> stands for.
\<close>

definition run ::
  "env \<Rightarrow> server \<Rightarrow> conn \<Rightarrow> sshSession \<Rightarrow> (event list \<times> server \<times> conn) outcome" where
  "run e srv c ss =
     (case attachSessionToConnIfNotShutdown srv c ss of
        Panic msg \<Rightarrow> Panic msg
      | Returns (False, srv1, c1) \<Rightarrow>
          Returns ([Write (''Tailscale SSH is shutting down'' @ [CHR 0x0D, CHR 0x0A]), Exit 1],
                   srv1, c1)
      | Returns (True, srv1, c1) \<Rightarrow>
          (case finalAction c1 of
             None \<Rightarrow> Panic ''nil pointer dereference''
           | Some fa \<Rightarrow>
               if Geteuid e \<noteq> 0
               then (case localUser c1 of
                       None \<Rightarrow> Panic ''nil pointer dereference''
                     | Some lu \<Rightarrow>
                         if Uid lu \<noteq> Sprint e (Geteuid e)
                         then (case detachSession srv1 c1 ss of
                                 (srv2, c2) \<Rightarrow>
                                   Returns ([Write (''can't switch user''
                                                     @ [CHR 0x0D, CHR 0x0A]), Exit 1],
                                            srv2, c2))
                         else (case detachSession srv1 c1 ss of
                                 (srv2, c2) \<Rightarrow>
                                   Returns (launchAndWait e (sharedID ss), srv2, c2)))
               else (case detachSession srv1 c1 ss of
                       (srv2, c2) \<Rightarrow> Returns (launchAndWait e (sharedID ss), srv2, c2))))"

text \<open>
  The calls that reach a server and one of its connections, each one atomic: the
  locked part of \<open>Shutdown\<close>, the attach of a session behind the fence and its detach,
  \<open>trackActiveConn\<close>, a fetch of a public-key list, and \<open>doPolicyAuth\<close>. A sequence of
  calls gives the answers of its attach calls, in order; a panic ends it.
\<close>

datatype call =
    CallShutdown
  | CallAttach sshSession
  | CallDetach sshSession
  | CallTrackActiveConn bool
  | CallFetchPublicKeysURL string
  | CallDoPolicyAuth Context "PublicKey option"

fun exec_call :: "env \<Rightarrow> call \<Rightarrow> server \<times> conn \<Rightarrow> (bool list \<times> server \<times> conn) outcome" where
  "exec_call e CallShutdown (srv, c) = Returns ([], Shutdown srv c)"
| "exec_call e (CallAttach ss) (srv, c) =
     (case attachSessionToConnIfNotShutdown srv c ss of
        Panic msg \<Rightarrow> Panic msg
      | Returns (attached, srv', c') \<Rightarrow> Returns ([attached], srv', c'))"
| "exec_call e (CallDetach ss) (srv, c) = Returns ([], detachSession srv c ss)"
| "exec_call e (CallTrackActiveConn add) (srv, c) = Returns ([], trackActiveConn srv c add, c)"
| "exec_call e (CallFetchPublicKeysURL url) (srv, c) =
     Returns ([], snd (fetchPublicKeysURL e srv url), c)"
| "exec_call e (CallDoPolicyAuth ctx k) (srv, c) =
     (case doPolicyAuth e ctx k srv c of
        Panic msg \<Rightarrow> Panic msg
      | Returns (err, srv', c') \<Rightarrow> Returns ([], srv', c'))"

fun exec_calls ::
  "env \<Rightarrow> call list \<Rightarrow> server \<times> conn \<Rightarrow> (bool list \<times> server \<times> conn) outcome" where
  "exec_calls e [] st = Returns ([], st)"
| "exec_calls e (x # xs) st =
     (case exec_call e x st of
        Panic msg \<Rightarrow> Panic msg
      | Returns (bs, st') \<Rightarrow>
          (case exec_calls e xs st' of
             Panic msg \<Rightarrow> Panic msg
           | Returns (bs', st'') \<Rightarrow> Returns (bs @ bs', st'')))"

subsection \<open>The end of a session: \<open>cmd.Wait\<close> against \<open>killProcessOnContextDone\<close>\<close>

text \<open>
  The two goroutines of a session that meet at \<open>exitOnce\<close>, as a transition system.
  \<open>run\<close> launches the process and starts the watcher, or returns early when the
  launch fails; then it waits in \<open>cmd.Wait\<close>, calls \<open>exitOnce.Do\<close> with an empty function
  and returns. The watcher \<open>killProcessOnContextDone\<close> blocks until the session context
  is done and then calls \<open>exitOnce.Do\<close> with the function that calls
  \<open>cmd.Process.Kill\<close>. \<open>sync.Once\<close> runs the function of the first \<open>Do\<close> only, and a
  second \<open>Do\<close> waits for the first to finish: a call of \<open>Do\<close> is one step. The child may
  exit and the context may become done at any moment.
\<close>

datatype runPc = AtLaunch | AtWait | AtExitOnce | Returned

datatype killerPc = NotStarted | AtCtxDone | AtKillOnce | KillerReturned

record race =
  runAt :: runPc
  killerAt :: killerPc
  procExited :: bool
  ctxDone :: bool
  exitOnce :: bool
  killCalls :: nat

datatype racer =
    Launch bool
  | ChildExits
  | ContextDone
  | WaitReturns
  | RunOnce
  | KillerWakes
  | KillerOnce

text \<open>One step of the named kind; a step that is not enabled changes nothing.\<close>

fun step :: "racer \<Rightarrow> race \<Rightarrow> race" where
  "step (Launch ok) s =
     (if runAt s = AtLaunch
      then (if ok then s\<lparr>runAt := AtWait, killerAt := AtCtxDone\<rparr>
            else s\<lparr>runAt := Returned\<rparr>)
      else s)"
| "step ChildExits s = (if runAt s \<noteq> AtLaunch then s\<lparr>procExited := True\<rparr> else s)"
| "step ContextDone s = s\<lparr>ctxDone := True\<rparr>"
| "step WaitReturns s =
     (if runAt s = AtWait \<and> procExited s then s\<lparr>runAt := AtExitOnce\<rparr> else s)"
| "step RunOnce s =
     (if runAt s = AtExitOnce then s\<lparr>runAt := Returned, exitOnce := True\<rparr> else s)"
| "step KillerWakes s =
     (if killerAt s = AtCtxDone \<and> ctxDone s then s\<lparr>killerAt := AtKillOnce\<rparr> else s)"
| "step KillerOnce s =
     (if killerAt s = AtKillOnce
      then (if exitOnce s then s\<lparr>killerAt := KillerReturned\<rparr>
            else s\<lparr>killerAt := KillerReturned, exitOnce := True,
                   killCalls := killCalls s + 1\<rparr>)
      else s)"

fun steps :: "racer list \<Rightarrow> race \<Rightarrow> race" where
  "steps [] s = s"
| "steps (a # as) s = steps as (step a s)"

definition sessionStart :: race where
  "sessionStart =
     \<lparr>runAt = AtLaunch, killerAt = NotStarted, procExited = False, ctxDone = False,
      exitOnce = False, killCalls = 0\<rparr>"

text \<open>What holds of every state the session reaches: \<open>Kill\<close> was not called, or it
  was called once, by the watcher, which has returned and has claimed \<open>exitOnce\<close>; and the
  watcher is not started before the launch.\<close>

definition killInvariant :: "race \<Rightarrow> bool" where
  "killInvariant s =
     ((killCalls s = 0 \<or> (killCalls s = 1 \<and> killerAt s = KillerReturned \<and> exitOnce s))
      \<and> (runAt s = AtLaunch \<longrightarrow> killerAt s = NotStarted))"

subsection \<open>Sample values\<close>

text \<open>Two values of base64 decoding, for the examples: \<open>''QUJD''\<close> decodes to
  \<open>''ABC''\<close>, and the empty text to no bytes.\<close>

definition DecodeString_sample :: "string \<Rightarrow> string" where
  "DecodeString_sample s = (if s = ''QUJD'' then ''ABC'' else [])"

text \<open>A sample of the surroundings: two overlay addresses, one known peer, one local
  account, and a network that refuses every request.\<close>

definition env_sample :: env where
  "env_sample =
     \<lparr>DecodeString = DecodeString_sample,
      TrimSpace = (\<lambda>s. s),
      ParseAddr = IP,
      IsTailscaleIP = (\<lambda>a. a = IP ''100.64.0.1'' \<or> a = IP ''100.64.0.2''),
      QueryEscape = (\<lambda>s. s),
      Sprint = (\<lambda>i. if i = 7 then ''7'' else ''1000''),
      Lookup = (\<lambda>n. if n = ''alice''
                     then Inr \<lparr>Uid = ''1000'', Gid = ''1000'', Username = ''alice''\<rparr>
                     else Inl (External ''unknown user'')),
      GroupIds = (\<lambda>u. Inr [''1000'']),
      Geteuid = 0,
      NewRequest = (\<lambda>u. None),
      ShouldRunSSH = True,
      NetMap = Some \<lparr>SSHPolicy = None, SelfNode = Some \<lparr>ID = 1, StableID = ''nSELF''\<rparr>\<rparr>,
      WhoIs = (\<lambda>a. if Addr a = IP ''100.64.0.2''
                    then Some (Some \<lparr>ID = 7, StableID = ''nPEER''\<rparr>,
                               \<lparr>LoginName = ''alice@example.com''\<rparr>)
                    else None),
      SSHIgnoreTailnetPolicy = False,
      SSHPolicyFile = '''',
      ReadPolicyFile = (\<lambda>f. None),
      pubKeyDo = (\<lambda>n url tag. (DoError (External ''connection refused''), 0)),
      DoNoiseRequest = (\<lambda>n url. DoError (External ''connection refused'')),
      ctxErr = (\<lambda>n. if n < 3 then None else Some (External ''context canceled'')),
      DecodeAction = (\<lambda>body. None),
      launchAndWait = (\<lambda>sid. [Exit 0])\<rparr>"

definition entry_sample :: pubKeyCacheEntry where
  "entry_sample = \<lparr>lines = [''ssh-ed25519 QUJD''], etag = ''v1'', at = 0\<rparr>"

definition srv_sample :: server where
  "srv_sample =
     \<lparr>timeNow = 120 * Second, sessionWaitGroup = 0, activeConns = {},
      fetchPublicKeysCache = [''https://example.com/alice.keys'' \<mapsto> entry_sample],
      shutdownCalled = False, pubKeyRequests = 0, noiseRequests = 0\<rparr>"

definition answer_sample :: "nat \<Rightarrow> DoResult" where
  "answer_sample code = DoResponse \<lparr>StatusCode = code, Status = ''status'', Etag = ''v2'',
       Body = ''ssh-ed25519 AAAA'', BodyErr = None\<rparr>"

text \<open>A cache of 51 entries, each stored at the very reading of the clock.\<close>

definition url51 :: "nat \<Rightarrow> string" where
  "url51 i = ''https://example.com/'' @ replicate i CHR ''k''"

definition cache51 :: "string \<rightharpoonup> pubKeyCacheEntry" where
  "cache51 = map_of (map (\<lambda>i. (url51 i, \<lparr>lines = [''k''], etag = '''', at = 1000\<rparr>)) [0..<51])"

definition srv51 :: server where
  "srv51 = \<lparr>timeNow = 1000, sessionWaitGroup = 0, activeConns = {},
      fetchPublicKeysCache = cache51,
      shutdownCalled = False, pubKeyRequests = 0, noiseRequests = 0\<rparr>"


text \<open>A peer at \<open>100.64.0.2\<close> asking for the user \<open>alice\<close>, its connection once the
  identity is set, and an accepting action.\<close>

definition ctx_sample :: Context where
  "ctx_sample =
     \<lparr>ctxUser = ''alice'',
      RemoteAddr = \<lparr>Addr = IP ''100.64.0.2'', Port = 50000\<rparr>,
      LocalAddr = \<lparr>Addr = IP ''100.64.0.1'', Port = 22\<rparr>,
      SessionID = ''H'',
      SendAuthBanner = (\<lambda>msg. None)\<rparr>"

definition info_sample :: sshConnInfo where
  "info_sample =
     \<lparr>sshUser = ''alice'',
      src = \<lparr>Addr = IP ''100.64.0.2'', Port = 50000\<rparr>,
      dst = \<lparr>Addr = IP ''100.64.0.1'', Port = 22\<rparr>,
      node = Some \<lparr>ID = 7, StableID = ''nPEER''\<rparr>,
      uprof = \<lparr>LoginName = ''alice@example.com''\<rparr>\<rparr>"

definition conn_sample :: conn where
  "conn_sample =
     \<lparr>connPtr = 1, insecureSkipTailscaleAuth = False, idH = ''H'',
      connID = ''ssh-conn-20220101T000000-0102030405'', anyPasswordIsOkay = False,
      action0 = None, currentAction = None, finalAction = None, finalActionErr = None,
      info = Some info_sample, localUser = None, userGroupIDs = [], pubKey = None,
      sessions = [], banners = [], closed = False\<rparr>"

definition accept_sample :: SSHAction where
  "accept_sample =
     \<lparr>Message = '''', Reject = False, Accept = True, SessionDuration = 0,
      AllowAgentForwarding = False, HoldAndDelegate = '''',
      AllowLocalPortForwarding = False\<rparr>"

text \<open>A principal that names the peer's login and lists one public key; a rule with
  it that maps \<open>alice\<close> to herself, and one that maps only \<open>bob\<close>.\<close>

definition principal_keys :: SSHPrincipal where
  "principal_keys =
     \<lparr>Node = '''', NodeIP = '''', UserLogin = ''alice@example.com'', Any = False,
      PubKeys = [''ssh-ed25519 QUJD'']\<rparr>"

definition rule_keys :: SSHRule where
  "rule_keys =
     \<lparr>RuleExpires = None, Principals = [Some principal_keys],
      SSHUsers = [''alice'' \<mapsto> ''='', ''*'' \<mapsto> ''''], Action = Some accept_sample\<rparr>"

definition rule_keys_bob :: SSHRule where
  "rule_keys_bob =
     \<lparr>RuleExpires = None, Principals = [Some principal_keys],
      SSHUsers = [''bob'' \<mapsto> ''=''], Action = Some accept_sample\<rparr>"

definition env_policy :: "SSHRule option list \<Rightarrow> env" where
  "env_policy rs =
     env_sample\<lparr>NetMap := Some \<lparr>SSHPolicy = Some \<lparr>Rules = rs\<rparr>,
                                 SelfNode = Some \<lparr>ID = 1, StableID = ''nSELF''\<rparr>\<rparr>\<rparr>"

text \<open>A connection before authentication, for the user name \<open>alice+password\<close>; a rule
  that accepts the peer by its login alone; the connection as \<open>doPolicyAuth\<close> leaves
  it under that rule.\<close>

definition ctx_password :: Context where
  "ctx_password = ctx_sample\<lparr>ctxUser := ''alice+password''\<rparr>"

definition conn_new :: conn where
  "conn_new = conn_sample\<lparr>idH := '''', info := None\<rparr>"

definition principal_login :: SSHPrincipal where
  "principal_login =
     \<lparr>Node = '''', NodeIP = '''', UserLogin = ''alice@example.com'', Any = False,
      PubKeys = []\<rparr>"

definition rule_accept :: SSHRule where
  "rule_accept =
     \<lparr>RuleExpires = None, Principals = [Some principal_login],
      SSHUsers = [''alice'' \<mapsto> ''='', ''*'' \<mapsto> ''''], Action = Some accept_sample\<rparr>"

definition conn_accepted :: conn where
  "conn_accepted =
     conn_sample\<lparr>action0 := Some accept_sample, currentAction := Some accept_sample,
                  finalAction := Some accept_sample,
                  localUser := Some \<lparr>Uid = ''1000'', Gid = ''1000'', Username = ''alice''\<rparr>,
                  userGroupIDs := [''1000'']\<rparr>"

text \<open>A connection held by a delegating action, and a control server that answers
  500 once and then 200 with an accepting action.\<close>

definition hold_sample :: SSHAction where
  "hold_sample = accept_sample\<lparr>Accept := False, HoldAndDelegate := ''https://c/$SSH_USER''\<rparr>"

definition conn_held :: conn where
  "conn_held =
     conn_sample\<lparr>action0 := Some hold_sample, currentAction := Some hold_sample,
                  localUser := Some \<lparr>Uid = ''1000'', Gid = ''1000'', Username = ''alice''\<rparr>,
                  userGroupIDs := [''1000'']\<rparr>"

definition env_delegate :: env where
  "env_delegate =
     env_sample\<lparr>DoNoiseRequest :=
                   (\<lambda>n url. if url = ''https://c/alice'' \<and> n = 1
                             then answer_sample 200 else answer_sample 500),
                 DecodeAction :=
                   (\<lambda>body. if body = ''ssh-ed25519 AAAA'' then Some accept_sample else None)\<rparr>"

section \<open>Properties\<close>

subsection \<open>strings.Cut\<close>

lemma Cut_found: "sep \<notin> set a \<Longrightarrow> Cut (a @ sep # b) sep = (a, b, True)"
  by (induction a) auto

lemma Cut_not_found: "sep \<notin> set a \<Longrightarrow> Cut a sep = (a, [], False)"
  by (induction a) auto

subsection \<open>mapLocalUser\<close>

text \<open>
  C10. When the requested user name is a key of \<open>ssh_users\<close>, the value stored under it
  decides alone: an empty value gives \<open>''''\<close> (no match) and the \<open>''*''\<close> entry is not
  consulted, whatever it holds; two mappings that agree on the requested key give the
  same answer.
\<close>

theorem mapLocalUser_present_key_shadows_wildcard:
  "(m r = Some '''' \<longrightarrow> mapLocalUser m r = '''')
   \<and> (m r = Some v \<longrightarrow> mapLocalUser m r = (if v = ''='' then r else v))
   \<and> (m r = Some v \<and> m' r = Some v \<longrightarrow> mapLocalUser m r = mapLocalUser m' r)"
  by (simp add: mapLocalUser_def)

theorem mapLocalUser_present_key_shadows_wildcard_witness:
  "[''alice'' \<mapsto> '''', ''*'' \<mapsto> ''root''] ''alice'' = Some ''''
   \<and> mapLocalUser [''alice'' \<mapsto> '''', ''*'' \<mapsto> ''root''] ''alice'' = ''''
   \<and> mapLocalUser [''alice'' \<mapsto> ''''] ''alice''
       = mapLocalUser [''alice'' \<mapsto> '''', ''*'' \<mapsto> ''root''] ''alice''"
  using mapLocalUser_present_key_shadows_wildcard
    [of "[''alice'' \<mapsto> '''', ''*'' \<mapsto> ''root'']" "''alice''" "''''" "[''alice'' \<mapsto> '''']"]
  by (simp add: mapLocalUser_def)

text \<open>
  C2 (amended). The requested name is looked up first and \<open>''*''\<close> only when it is
  missing. The value found decides: \<open>''=''\<close> gives the requested name, any other value
  is returned as it is, and with neither key the result is \<open>''''\<close>. So a missing
  requested key with a \<open>''*''\<close> key present gives \<open>ssh_users[''*'']\<close> unless that value
  is \<open>''=''\<close>, which gives the requested name. The function reads nothing but its two
  arguments.
\<close>

theorem mapLocalUser_lookup:
  "(m r = Some v \<longrightarrow> mapLocalUser m r = (if v = ''='' then r else v))
   \<and> (m r = None \<and> m ''*'' = Some w \<longrightarrow> mapLocalUser m r = (if w = ''='' then r else w))
   \<and> (m r = None \<and> m ''*'' = None \<longrightarrow> mapLocalUser m r = '''')"
  by (simp add: mapLocalUser_def)

theorem mapLocalUser_lookup_witness:
  "[''bob'' \<mapsto> ''='', ''*'' \<mapsto> ''guest''] ''alice'' = None
   \<and> [''bob'' \<mapsto> ''='', ''*'' \<mapsto> ''guest''] ''*'' = Some ''guest''
   \<and> mapLocalUser [''bob'' \<mapsto> ''='', ''*'' \<mapsto> ''guest''] ''alice'' = ''guest''
   \<and> mapLocalUser [''bob'' \<mapsto> ''='', ''*'' \<mapsto> ''guest''] ''bob'' = ''bob''"
  using mapLocalUser_lookup
    [of "[''bob'' \<mapsto> ''='', ''*'' \<mapsto> ''guest'']" "''alice''" "''guest''" "''guest''"]
    mapLocalUser_lookup
    [of "[''bob'' \<mapsto> ''='', ''*'' \<mapsto> ''guest'']" "''bob''" "''=''" "''guest''"]
  by simp

text \<open>
  The claim as written fails where the wildcard entry holds \<open>''=''\<close>: the requested key
  is missing, the \<open>''*''\<close> key is present, and the result is the requested name, not
  \<open>ssh_users[''*'']\<close>.
\<close>

theorem mapLocalUser_wildcard_equals_counterexample:
  "[''*'' \<mapsto> ''=''] ''alice'' = None
   \<and> [''*'' \<mapsto> ''=''] ''*'' = Some ''=''
   \<and> mapLocalUser [''*'' \<mapsto> ''=''] ''alice'' = ''alice''
   \<and> mapLocalUser [''*'' \<mapsto> ''=''] ''alice'' \<noteq> ''=''"
  by (simp add: mapLocalUser_def)

subsection \<open>pubKeyMatchesAuthorizedKey\<close>

text \<open>
  For an entry \<open><type> <base64>\<close>, with or without a comment after a second space, the
  code answers true exactly when the key's type is the entry's type token, the bytes
  decoded from the second field are not empty, and they are the key's wire form.
\<close>

lemma pubKeyMatchesAuthorizedKey_entry:
  assumes "CHR '' '' \<notin> set ty" and "CHR '' '' \<notin> set b64"
  shows "pubKeyMatchesAuthorizedKey D k (ty @ '' '' @ b64)
           = (Type k = ty \<and> D b64 \<noteq> [] \<and> Marshal k = D b64)
         \<and> pubKeyMatchesAuthorizedKey D k (ty @ '' '' @ b64 @ '' '' @ comment)
           = (Type k = ty \<and> D b64 \<noteq> [] \<and> Marshal k = D b64)"
proof -
  have c1: "Cut (ty @ CHR '' '' # b64) CHR '' '' = (ty, b64, True)"
    using assms(1) by (rule Cut_found)
  have c2: "Cut (ty @ CHR '' '' # b64 @ CHR '' '' # comment) CHR '' ''
              = (ty, b64 @ CHR '' '' # comment, True)"
    using assms(1) by (rule Cut_found)
  have c3: "Cut b64 CHR '' '' = (b64, [], False)"
    using assms(2) by (rule Cut_not_found)
  have c4: "Cut (b64 @ CHR '' '' # comment) CHR '' '' = (b64, comment, True)"
    using assms(2) by (rule Cut_found)
  show ?thesis
    by (auto simp add: pubKeyMatchesAuthorizedKey_def c1 c2 c3 c4 Let_def)
qed

text \<open>An entry whose second field decodes to no bytes matches no key: the code asks
  for \<open>len(wantKeyData) > 0\<close>.\<close>

lemma pubKeyMatchesAuthorizedKey_empty_field:
  "\<not> pubKeyMatchesAuthorizedKey DecodeString_sample
       \<lparr>Type = ''ssh-ed25519'', Marshal = ''''\<rparr> (''ssh-ed25519  comment'')"
  by (simp add: pubKeyMatchesAuthorizedKey_def DecodeString_sample_def)

text \<open>
  C3. A presented client public key comes from the SSH library, and its wire form is
  never empty: it begins with the name of the key's algorithm. For every such key and
  every entry \<open><type> <base64>\<close>, with or without a comment after a second space,
  \<open>pubKeyMatchesAuthorizedKey\<close> answers true if and only if the key's type is the
  entry's type token and the bytes decoded from the second field are the key's wire
  form. What follows the second field is ignored: the answer is the same with any
  comment and with none.
\<close>

theorem pubKeyMatchesAuthorizedKey_iff:
  assumes "CHR '' '' \<notin> set ty" and "CHR '' '' \<notin> set b64" and "Marshal k \<noteq> []"
  shows "pubKeyMatchesAuthorizedKey D k (ty @ '' '' @ b64)
           = (Type k = ty \<and> D b64 = Marshal k)
         \<and> pubKeyMatchesAuthorizedKey D k (ty @ '' '' @ b64 @ '' '' @ comment)
           = (Type k = ty \<and> D b64 = Marshal k)"
  using pubKeyMatchesAuthorizedKey_entry[OF assms(1) assms(2), of D k comment] assms(3)
  by auto

theorem pubKeyMatchesAuthorizedKey_iff_witness:
  "CHR '' '' \<notin> set ''ssh-ed25519'' \<and> CHR '' '' \<notin> set ''QUJD''
   \<and> Marshal \<lparr>Type = ''ssh-ed25519'', Marshal = ''ABC''\<rparr> \<noteq> []
   \<and> DecodeString_sample ''QUJD'' = Marshal \<lparr>Type = ''ssh-ed25519'', Marshal = ''ABC''\<rparr>
   \<and> pubKeyMatchesAuthorizedKey DecodeString_sample
        \<lparr>Type = ''ssh-ed25519'', Marshal = ''ABC''\<rparr> (''ssh-ed25519 QUJD alice@example.com'')
   \<and> pubKeyMatchesAuthorizedKey DecodeString_sample
        \<lparr>Type = ''ssh-ed25519'', Marshal = ''ABC''\<rparr> (''ssh-ed25519 QUJD'')
   \<and> \<not> pubKeyMatchesAuthorizedKey DecodeString_sample
        \<lparr>Type = ''ssh-rsa'', Marshal = ''ABC''\<rparr> (''ssh-ed25519 QUJD'')
   \<and> \<not> pubKeyMatchesAuthorizedKey DecodeString_sample
        \<lparr>Type = ''ssh-ed25519'', Marshal = ''ABD''\<rparr> (''ssh-ed25519 QUJD alice@example.com'')"
  using pubKeyMatchesAuthorizedKey_iff
    [of "''ssh-ed25519''" "''QUJD''" "\<lparr>Type = ''ssh-ed25519'', Marshal = ''ABC''\<rparr>"
        DecodeString_sample "''alice@example.com''"]
    pubKeyMatchesAuthorizedKey_iff
    [of "''ssh-ed25519''" "''QUJD''" "\<lparr>Type = ''ssh-rsa'', Marshal = ''ABC''\<rparr>"
        DecodeString_sample "''''"]
    pubKeyMatchesAuthorizedKey_iff
    [of "''ssh-ed25519''" "''QUJD''" "\<lparr>Type = ''ssh-ed25519'', Marshal = ''ABD''\<rparr>"
        DecodeString_sample "''alice@example.com''"]
  by (simp add: DecodeString_sample_def)

subsection \<open>The public-key cache\<close>

lemma cached_no_cleanup:
  "card (dom (fetchPublicKeysCache srv)) \<le> 50 \<Longrightarrow> fetchPublicKeysCache srv url = Some ce \<Longrightarrow>
   fetchPublicKeysURLCached srv url =
     ((ce, now srv - at ce < (if lines ce = [] then pubKeyCacheEmptyDuration
                              else pubKeyCacheDuration)), srv)"
  by (simp add: fetchPublicKeysURLCached_def Let_def)

text \<open>
  C4 (amended). Take an \<open>https\<close> URL whose cache entry is too old to be served, in a
  cache of at most 50 entries (so that no clean-up runs), and let the request be
  built and sent. A transport error is returned and leaves the cache as it was. A
  status other than 200 and 304 is returned as an error and the entry is overwritten
  with no lines, no etag and the current time. A 304 keeps the cached lines and etag
  and stores the current time. A 200 stores the lines of the first 4096 body bytes,
  the response's etag and the current time.
\<close>

theorem fetchPublicKeysURL_outcomes:
  assumes "HasPrefix url ''https://''"
    and "fetchPublicKeysCache srv url = Some ce"
    and "card (dom (fetchPublicKeysCache srv)) \<le> 50"
    and "\<not> now srv - at ce < (if lines ce = [] then pubKeyCacheEmptyDuration
                                else pubKeyCacheDuration)"
    and "NewRequest e url = None"
    and "pubKeyDo e (pubKeyRequests srv) url (etag ce) = (answer, arrival)"
  shows "(answer = DoError err \<longrightarrow>
            fst (fetchPublicKeysURL e srv url) = ([], Some err)
            \<and> fetchPublicKeysCache (snd (fetchPublicKeysURL e srv url))
                = fetchPublicKeysCache srv)
       \<and> (answer = DoResponse res \<and> StatusCode res \<noteq> 200 \<and> StatusCode res \<noteq> 304 \<longrightarrow>
            fst (fetchPublicKeysURL e srv url)
              = ([], Some (Errorf (''unexpected status '' @ Status res)))
            \<and> fetchPublicKeysCache (snd (fetchPublicKeysURL e srv url))
                = (fetchPublicKeysCache srv)
                    (url \<mapsto> \<lparr>lines = [], etag = '''', at = arrival\<rparr>))
       \<and> (answer = DoResponse res \<and> StatusCode res = 304 \<longrightarrow>
            fst (fetchPublicKeysURL e srv url) = (lines ce, None)
            \<and> fetchPublicKeysCache (snd (fetchPublicKeysURL e srv url))
                = (fetchPublicKeysCache srv)
                    (url \<mapsto> \<lparr>lines = lines ce, etag = etag ce, at = arrival\<rparr>))
       \<and> (answer = DoResponse res \<and> StatusCode res = 200 \<longrightarrow>
            fst (fetchPublicKeysURL e srv url)
              = (if TrimSpace e (take 4096 (Body res)) \<noteq> ''''
                 then Split (TrimSpace e (take 4096 (Body res))) CHR 0x0A else [],
                 snd (ReadAllLimited res 4096))
            \<and> fetchPublicKeysCache (snd (fetchPublicKeysURL e srv url))
                = (fetchPublicKeysCache srv)
                    (url \<mapsto> \<lparr>lines = fst (fst (fetchPublicKeysURL e srv url)),
                             etag = Etag res, at = arrival\<rparr>))"
  using assms
  by (auto simp add: fetchPublicKeysURL_def cached_no_cleanup now_def StatusOK_def
        StatusNotModified_def ReadAllLimited_def Let_def split: prod.splits)

theorem fetchPublicKeysURL_outcomes_witness:
  "HasPrefix ''https://example.com/alice.keys'' ''https://''
   \<and> fetchPublicKeysCache srv_sample ''https://example.com/alice.keys'' = Some entry_sample
   \<and> card (dom (fetchPublicKeysCache srv_sample)) \<le> 50
   \<and> \<not> now srv_sample - at entry_sample
        < (if lines entry_sample = [] then pubKeyCacheEmptyDuration else pubKeyCacheDuration)
   \<and> fst (fetchPublicKeysURL
             (env_sample\<lparr>pubKeyDo := (\<lambda>n url tag. (answer_sample 304, 121 * Second))\<rparr>)
             srv_sample ''https://example.com/alice.keys'')
       = ([''ssh-ed25519 QUJD''], None)
   \<and> fetchPublicKeysCache
         (snd (fetchPublicKeysURL
                 (env_sample\<lparr>pubKeyDo := (\<lambda>n url tag. (answer_sample 304, 121 * Second))\<rparr>)
                 srv_sample ''https://example.com/alice.keys''))
         ''https://example.com/alice.keys''
       = Some \<lparr>lines = [''ssh-ed25519 QUJD''], etag = ''v1'', at = 121 * Second\<rparr>"
  using fetchPublicKeysURL_outcomes
    [of "''https://example.com/alice.keys''" srv_sample entry_sample
        "env_sample\<lparr>pubKeyDo := (\<lambda>n url tag. (answer_sample 304, 121 * Second))\<rparr>"
        "answer_sample 304" "121 * Second" "External ''none''"
        "\<lparr>StatusCode = 304, Status = ''status'', Etag = ''v2'',
          Body = ''ssh-ed25519 AAAA'', BodyErr = None\<rparr>"]
  by (simp add: env_sample_def srv_sample_def entry_sample_def answer_sample_def
        HasPrefix_def now_def Second_def Minute_def pubKeyCacheDuration_def
        pubKeyCacheEmptyDuration_def)

text \<open>
  The claim as written fails on a status other than 200 and 304: the answer 500 makes
  the code return an error and store an empty entry over the cached one.
\<close>

theorem fetchPublicKeysURL_status_500_counterexample:
  "fetchPublicKeysCache srv_sample ''https://example.com/alice.keys'' = Some entry_sample
   \<and> snd (fst (fetchPublicKeysURL
                  (env_sample\<lparr>pubKeyDo := (\<lambda>n url tag. (answer_sample 500, 121 * Second))\<rparr>)
                  srv_sample ''https://example.com/alice.keys'')) \<noteq> None
   \<and> fetchPublicKeysCache
         (snd (fetchPublicKeysURL
                 (env_sample\<lparr>pubKeyDo := (\<lambda>n url tag. (answer_sample 500, 121 * Second))\<rparr>)
                 srv_sample ''https://example.com/alice.keys''))
         ''https://example.com/alice.keys''
       = Some \<lparr>lines = [], etag = '''', at = 121 * Second\<rparr>
   \<and> Some \<lparr>lines = [], etag = '''', at = 121 * Second\<rparr> \<noteq> Some entry_sample"
  by (simp add: fetchPublicKeysURL_def fetchPublicKeysURLCached_def env_sample_def
        srv_sample_def entry_sample_def answer_sample_def HasPrefix_def now_def Second_def
        Minute_def pubKeyCacheDuration_def pubKeyCacheEmptyDuration_def StatusOK_def
        StatusNotModified_def)

lemma deleteBefore_Some_iff:
  "deleteBefore tooOld m k = Some ce \<longleftrightarrow> m k = Some ce \<and> tooOld \<le> at ce"
  by (auto simp add: deleteBefore_def split: option.splits)

lemma cleanup_runs:
  "card (dom (fetchPublicKeysCache srv)) > 50 \<Longrightarrow>
   fetchPublicKeysCache (snd (fetchPublicKeysURLCached srv url))
     = deleteBefore (now srv + 10 * Minute) (fetchPublicKeysCache srv)"
  by (simp add: fetchPublicKeysURLCached_def Let_def pubKeyCacheDuration_def
        mult.commute split: option.splits)

lemma deleteBefore_all:
  "\<forall>k ce. m k = Some ce \<longrightarrow> at ce < t \<Longrightarrow> deleteBefore t m = Map.empty"
  by (auto simp add: deleteBefore_def fun_eq_iff split: option.splits)

lemma inj_url51: "inj url51"
  by (rule injI) (auto simp add: url51_def dest: arg_cong[where f = length])

lemma dom_cache51: "dom cache51 = url51 ` {0..<51}"
  by (simp add: cache51_def dom_map_of_conv_image_fst image_image del: upt_rec_numeral)

lemma card_cache51: "card (dom cache51) = 51"
  using card_image[of url51 "{0..<51}"] inj_url51
  by (simp add: dom_cache51 inj_on_def inj_def)

lemma cache51_0: "cache51 (url51 0) = Some \<lparr>lines = [''k''], etag = '''', at = 1000\<rparr>"
proof -
  have "distinct (map fst (map (\<lambda>i. (url51 i, \<lparr>lines = [''k''], etag = '''', at = 1000\<rparr>))
                             [0..<51]))"
    using inj_url51
    by (simp add: distinct_map comp_def inj_on_def inj_def del: upt_rec_numeral)
  then show ?thesis
    unfolding cache51_def
    by (auto simp add: image_iff simp del: upt_rec_numeral intro!: bexI[of _ 0])
qed

lemma cache51_at: "cache51 k = Some ce \<Longrightarrow> at ce = 1000"
  by (auto simp add: cache51_def dest!: map_of_SomeD simp del: upt_rec_numeral)

text \<open>
  C5 (the code differs). The clean-up computes \<open>tooOld\<close> as the current time plus ten
  minutes, not minus: with more than 50 entries it deletes every entry stored before
  ten minutes from now. In a cache of 51 entries that were all stored at the
  current reading of the clock, none of them older than ten minutes, the cached read
  deletes all 51 and finds nothing.
\<close>

theorem fetchPublicKeysURLCached_cleanup_deletes_fresh_entries:
  "card (dom (fetchPublicKeysCache srv51)) = 51
   \<and> fetchPublicKeysCache srv51 (url51 0) = Some \<lparr>lines = [''k''], etag = '''', at = 1000\<rparr>
   \<and> now srv51 = 1000
   \<and> fetchPublicKeysCache (snd (fetchPublicKeysURLCached srv51 (url51 0))) = Map.empty
   \<and> fetchPublicKeysURLCached srv51 (url51 0)
       = ((zeroEntry, False), srv51\<lparr>fetchPublicKeysCache := Map.empty\<rparr>)"
proof -
  have "deleteBefore (1000 + pubKeyCacheDuration * 10) cache51 = Map.empty"
    by (rule deleteBefore_all)
       (auto dest: cache51_at simp add: pubKeyCacheDuration_def Minute_def Second_def)
  then show ?thesis
    by (simp add: fetchPublicKeysURLCached_def srv51_def card_cache51 cache51_0 now_def)
qed

subsection \<open>Policy evaluation without a client key\<close>

text \<open>Without a client key no public-key list is fetched, so the server is left as it
  was, and a principal matches exactly when the identity does and it lists no keys.\<close>

lemma principalMatchesPubKey_no_key:
  "principalMatchesPubKey e ci srv p None = ((PubKeys p = [], None), srv)"
  by (simp add: principalMatchesPubKey_def)

lemma principalMatches_no_key:
  "principalMatches e ci srv p None
     = ((principalMatchesTailscaleIdentity e ci p \<and> PubKeys p = [], None), srv)"
  by (simp add: principalMatches_def principalMatchesPubKey_no_key)

lemma anyPrincipalMatches_no_key:
  "anyPrincipalMatches e ci srv ps None
     = ((\<exists>p. Some p \<in> set ps \<and> principalMatchesTailscaleIdentity e ci p \<and> PubKeys p = [],
         None), srv)"
proof (induction ps)
  case Nil
  show ?case by simp
next
  case (Cons a ps)
  show ?case
  proof (cases a)
    case None
    then show ?thesis using Cons by simp
  next
    case (Some p)
    then show ?thesis using Cons
      by (auto simp add: principalMatches_no_key split: bool.splits)
  qed
qed

lemma matchRule_no_key_server: "snd (matchRule e srv c r None) = srv"
  by (auto simp add: matchRule_def anyPrincipalMatches_no_key Let_def
        split: option.splits bool.splits)

lemma evalSSHPolicyRules_no_key_server: "snd (evalSSHPolicyRules e srv c rs None) = srv"
proof (induction rs)
  case Nil
  show ?case by simp
next
  case (Cons r rs)
  have "snd (matchRule e srv c r None) = srv" by (rule matchRule_no_key_server)
  then show ?case using Cons
    by (cases "matchRule e srv c r None") (auto split: sum.splits)
qed

lemma evaluatePolicy_no_key_server: "snd (evaluatePolicy e srv c None) = srv"
proof (cases "sshPolicy e")
  case None
  then show ?thesis by (simp add: evaluatePolicy_def)
next
  case (Some pol)
  have "snd (evalSSHPolicyRules e srv c (Rules pol) None) = srv"
    by (rule evalSSHPolicyRules_no_key_server)
  then show ?thesis using Some
    by (cases "evalSSHPolicyRules e srv c (Rules pol) None")
       (auto simp add: evaluatePolicy_def evalSSHPolicy_def split: option.splits)
qed

lemma havePubKeyPolicy_principals_no_nil:
  "None \<notin> set ps \<Longrightarrow>
   havePubKeyPolicy_principals e ci ps
     = Returns (\<exists>p. Some p \<in> set ps \<and> PubKeys p \<noteq> []
                     \<and> principalMatchesTailscaleIdentity e ci p)"
proof (induction ps)
  case Nil
  show ?case by simp
next
  case (Cons a ps)
  then show ?case by (cases a) auto
qed

lemma havePubKeyPolicy_rules_no_nil:
  "None \<notin> set rs \<Longrightarrow> \<forall>r. Some r \<in> set rs \<longrightarrow> None \<notin> set (Principals r) \<Longrightarrow>
   havePubKeyPolicy_rules e srv ci rs
     = Returns (\<exists>r p. Some r \<in> set rs \<and> \<not> ruleExpired srv r
                  \<and> mapLocalUser (SSHUsers r) (sshUser ci) \<noteq> ''''
                  \<and> Some p \<in> set (Principals r) \<and> PubKeys p \<noteq> []
                  \<and> principalMatchesTailscaleIdentity e ci p)"
proof (induction rs)
  case Nil
  show ?case by simp
next
  case (Cons a rs)
  show ?case
  proof (cases a)
    case None
    then show ?thesis using Cons.prems by simp
  next
    case (Some r)
    have ps: "None \<notin> set (Principals r)" using Cons.prems Some by simp
    have ih: "havePubKeyPolicy_rules e srv ci rs
     = Returns (\<exists>r p. Some r \<in> set rs \<and> \<not> ruleExpired srv r
                  \<and> mapLocalUser (SSHUsers r) (sshUser ci) \<noteq> ''''
                  \<and> Some p \<in> set (Principals r) \<and> PubKeys p \<noteq> []
                  \<and> principalMatchesTailscaleIdentity e ci p)"
      using Cons by simp
    show ?thesis
      unfolding Some
      by (auto simp add: ih havePubKeyPolicy_principals_no_nil[OF ps] split: bool.splits)
  qed
qed

lemmas sample_defs = env_policy_def env_sample_def srv_sample_def conn_sample_def info_sample_def
  ctx_sample_def rule_keys_def rule_keys_bob_def principal_keys_def accept_sample_def

lemmas policy_defs = doPolicyAuth_def setInfo_def evaluatePolicy_def evalSSHPolicy_def sshPolicy_def
  matchRule_def ruleExpired_def mapLocalUser_def principalMatches_def principalMatchesPubKey_def
  principalMatchesTailscaleIdentity_def havePubKeyPolicy_def


text \<open>
  C1 (amended). Let the connection's identity be set, let the policy have no nil rule
  and no nil principal, and let \<open>evaluatePolicy\<close> find no match without a client key.
  Then \<open>doPolicyAuth\<close> returns the sentinel \<open>errPubKeyRequired\<close> exactly when some rule
  that has not expired and whose \<open>ssh_users\<close> maps the requested user to a non-empty
  local user has a principal with a non-empty \<open>pub_keys\<close> list that the Tailscale
  identity matches; otherwise it returns an error wrapping the denial. Server and
  connection are unchanged.
\<close>

theorem doPolicyAuth_no_key_no_match:
  assumes "info c = Some ci"
    and "sshPolicy e = Some pol"
    and "None \<notin> set (Rules pol)"
    and "\<forall>r. Some r \<in> set (Rules pol) \<longrightarrow> None \<notin> set (Principals r)"
    and "fst (evaluatePolicy e srv c None) = Inl err"
  shows "doPolicyAuth e ctx None srv c =
     Returns (Some (if (\<exists>r p. Some r \<in> set (Rules pol) \<and> \<not> ruleExpired srv r
                          \<and> mapLocalUser (SSHUsers r) (sshUser ci) \<noteq> ''''
                          \<and> Some p \<in> set (Principals r) \<and> PubKeys p \<noteq> []
                          \<and> principalMatchesTailscaleIdentity e ci p)
                    then errPubKeyRequired else DeniedBecause err), srv, c)
         \<and> isDenied (DeniedBecause err) \<and> \<not> isDenied errPubKeyRequired"
proof -
  have s: "setInfo e ctx c = (None, c)" using assms(1) by (simp add: setInfo_def)
  have ev: "evaluatePolicy e srv c None = (Inl err, srv)"
    using assms(5) evaluatePolicy_no_key_server[of e srv c]
    by (cases "evaluatePolicy e srv c None") simp
  have h: "havePubKeyPolicy e srv c = Returns (\<exists>r p. Some r \<in> set (Rules pol) \<and> \<not> ruleExpired srv r
                          \<and> mapLocalUser (SSHUsers r) (sshUser ci) \<noteq> ''''
                          \<and> Some p \<in> set (Principals r) \<and> PubKeys p \<noteq> []
                          \<and> principalMatchesTailscaleIdentity e ci p)"
    using assms by (simp add: havePubKeyPolicy_def havePubKeyPolicy_rules_no_nil)
  show ?thesis
    by (simp add: doPolicyAuth_def s ev h split: bool.splits)
qed

theorem doPolicyAuth_no_key_no_match_witness:
  "info conn_sample = Some info_sample
   \<and> sshPolicy (env_policy [Some rule_keys]) = Some \<lparr>Rules = [Some rule_keys]\<rparr>
   \<and> None \<notin> set (Rules \<lparr>Rules = [Some rule_keys]\<rparr>)
   \<and> None \<notin> set (Principals rule_keys)
   \<and> fst (evaluatePolicy (env_policy [Some rule_keys]) srv_sample conn_sample None)
       = Inl (Errorf ''tailssh: rejecting connection; no matching policy'')
   \<and> doPolicyAuth (env_policy [Some rule_keys]) ctx_sample None srv_sample conn_sample
       = Returns (Some errPubKeyRequired, srv_sample, conn_sample)"
  using doPolicyAuth_no_key_no_match
    [of conn_sample info_sample "env_policy [Some rule_keys]" "\<lparr>Rules = [Some rule_keys]\<rparr>"
        srv_sample "Errorf ''tailssh: rejecting connection; no matching policy''" ctx_sample]
  by (simp add: sample_defs policy_defs)


text \<open>
  The claim as written fails for a rule whose principal matches the identity and
  lists a key, but whose \<open>ssh_users\<close> does not map the requested user: the policy
  contains such a rule, and still the answer is the denial, not the sentinel.
\<close>

theorem doPolicyAuth_unmapped_user_counterexample:
  "info conn_sample = Some info_sample
   \<and> fst (evaluatePolicy (env_policy [Some rule_keys_bob]) srv_sample conn_sample None)
       = Inl (Errorf ''tailssh: rejecting connection; no matching policy'')
   \<and> Some principal_keys \<in> set (Principals rule_keys_bob)
   \<and> principalMatchesTailscaleIdentity (env_policy [Some rule_keys_bob]) info_sample principal_keys
   \<and> PubKeys principal_keys \<noteq> []
   \<and> doPolicyAuth (env_policy [Some rule_keys_bob]) ctx_sample None srv_sample conn_sample
       = Returns (Some (DeniedBecause
                    (Errorf ''tailssh: rejecting connection; no matching policy'')),
                  srv_sample, conn_sample)"
  by (simp add: sample_defs policy_defs)

subsection \<open>The action chain\<close>





lemmas sample_defs2 = ctx_password_def conn_new_def principal_login_def rule_accept_def
  conn_accepted_def hold_sample_def conn_held_def env_delegate_def answer_sample_def





subsection \<open>The password work-around\<close>

text \<open>
  C7. Let the test-only switch \<open>insecureSkipTailscaleAuth\<close> be off, so that the policy
  is evaluated, let the user name end in \<open>+password\<close>, and let \<open>doPolicyAuth\<close> and
  \<open>isAuthorized\<close> return no error. Then the none-auth callback sets
  \<open>anyPasswordIsOkay\<close> and returns an error; on the connection it leaves,
  \<open>nextAuthMethodCallback\<close> offers \<open>password\<close> (before the name \<open>tailscale\<close>) and the
  password handler accepts any password. On a connection where the flag is not set
  the password handler rejects every password.
\<close>

theorem NoClientAuthCallback_force_password:
  assumes "\<not> insecureSkipTailscaleAuth c"
    and "HasSuffix (ctxUser ctx) forcePasswordSuffix"
    and "doPolicyAuth e ctx None srv c = Returns (None, srv1, c1)"
    and "isAuthorized e ctx srv1 c1 = Some (Returns (None, srv2, c2))"
  shows "NoClientAuthCallback e ctx srv c
           = Some (Returns (Some (Errorf ''any password please''), srv2,
                            c2\<lparr>anyPasswordIsOkay := True\<rparr>))
         \<and> nextAuthMethodCallback (c2\<lparr>anyPasswordIsOkay := True\<rparr>) prevErrors
             = [''password'', ''tailscale'']
         \<and> fakePasswordHandler (c2\<lparr>anyPasswordIsOkay := True\<rparr>) ctx password
         \<and> (\<not> anyPasswordIsOkay c' \<longrightarrow> \<not> fakePasswordHandler c' ctx' password')"
  using assms
  by (simp add: NoClientAuthCallback_def nextAuthMethodCallback_def fakePasswordHandler_def)

theorem NoClientAuthCallback_force_password_witness:
  "\<not> insecureSkipTailscaleAuth conn_new
   \<and> HasSuffix (ctxUser ctx_password) forcePasswordSuffix
   \<and> doPolicyAuth (env_policy [Some rule_accept]) ctx_password None srv_sample conn_new
       = Returns (None, srv_sample, conn_accepted)
   \<and> isAuthorized (env_policy [Some rule_accept]) ctx_password srv_sample conn_accepted
       = Some (Returns (None, srv_sample, conn_accepted))
   \<and> NoClientAuthCallback (env_policy [Some rule_accept]) ctx_password srv_sample conn_new
       = Some (Returns (Some (Errorf ''any password please''), srv_sample,
                        conn_accepted\<lparr>anyPasswordIsOkay := True\<rparr>))
   \<and> nextAuthMethodCallback (conn_accepted\<lparr>anyPasswordIsOkay := True\<rparr>)
         [Errorf ''any password please'']
       = [''password'', ''tailscale'']
   \<and> fakePasswordHandler (conn_accepted\<lparr>anyPasswordIsOkay := True\<rparr>) ctx_password ''hunter2''
   \<and> \<not> fakePasswordHandler conn_new ctx_password ''hunter2''"
proof -
  have d: "doPolicyAuth (env_policy [Some rule_accept]) ctx_password None srv_sample conn_new
       = Returns (None, srv_sample, conn_accepted)"
    by (simp add: policy_defs sample_defs sample_defs2 TrimSuffix_def HasSuffix_def
          forcePasswordSuffix_def)
  have i: "isAuthorized (env_policy [Some rule_accept]) ctx_password srv_sample conn_accepted
       = Some (Returns (None, srv_sample, conn_accepted))"
    by (simp add: isAuthorized_def isAuthorized_loop.simps conn_accepted_def conn_sample_def
          accept_sample_def)
  have n: "\<not> insecureSkipTailscaleAuth conn_new"
    by (simp add: conn_new_def conn_sample_def)
  have h: "HasSuffix (ctxUser ctx_password) forcePasswordSuffix"
    by (simp add: ctx_password_def ctx_sample_def HasSuffix_def forcePasswordSuffix_def)
  have o: "\<not> anyPasswordIsOkay conn_new"
    by (simp add: conn_new_def conn_sample_def)
  show ?thesis
    using NoClientAuthCallback_force_password
      [OF n h d i, of "[Errorf ''any password please'']" "''hunter2''" conn_new ctx_password
         "''hunter2''"] d i n h o
    by simp
qed

subsection \<open>The shutdown fence\<close>

text \<open>No call resets \<open>shutdownCalled\<close>, and the calls other than the attach leave the
  sessions of the connection alone or remove one.\<close>

lemma fetchPublicKeysURLCached_shutdownCalled:
  "shutdownCalled (snd (fetchPublicKeysURLCached srv url)) = shutdownCalled srv"
  by (simp add: fetchPublicKeysURLCached_def Let_def split: option.splits)

lemma fetchPublicKeysURL_shutdownCalled:
  "shutdownCalled (snd (fetchPublicKeysURL e srv url)) = shutdownCalled srv"
  using fetchPublicKeysURLCached_shutdownCalled[of srv url]
  by (cases "fetchPublicKeysURLCached srv url")
     (auto simp add: fetchPublicKeysURL_def Let_def
        split: option.splits prod.splits DoResult.splits if_splits)

lemma principalMatches_shutdownCalled:
  "shutdownCalled (snd (principalMatches e ci srv p k)) = shutdownCalled srv"
  using fetchPublicKeysURL_shutdownCalled[of e srv "expandPublicKeyURL ci (hd (PubKeys p))"]
  by (cases "fetchPublicKeysURL e srv (expandPublicKeyURL ci (hd (PubKeys p)))")
     (auto simp add: principalMatches_def principalMatchesPubKey_def
        split: option.splits prod.splits)

lemma anyPrincipalMatches_shutdownCalled:
  "shutdownCalled (snd (anyPrincipalMatches e ci srv ps k)) = shutdownCalled srv"
proof (induction ps arbitrary: srv)
  case Nil
  show ?case by simp
next
  case (Cons a ps)
  show ?case
  proof (cases a)
    case None
    then show ?thesis using Cons by simp
  next
    case (Some p)
    obtain ok err srv' where r: "principalMatches e ci srv p k = ((ok, err), srv')"
      by (metis prod.exhaust)
    have "shutdownCalled srv' = shutdownCalled srv"
      using principalMatches_shutdownCalled[of e ci srv p k] r by simp
    then show ?thesis using Some r Cons[of srv']
      by (auto split: option.splits bool.splits)
  qed
qed

lemma matchRule_shutdownCalled:
  "shutdownCalled (snd (matchRule e srv c r k)) = shutdownCalled srv"
proof (cases "info c")
  case None
  then show ?thesis by (simp add: matchRule_def)
next
  case ci: (Some ci)
  show ?thesis
  proof (cases r)
    case None
    then show ?thesis using ci by (simp add: matchRule_def)
  next
    case rr: (Some rr)
    show ?thesis
    proof (cases "Action rr")
      case None
      then show ?thesis using ci rr by (simp add: matchRule_def)
    next
      case a: (Some a)
      obtain ok err srv' where
        ap: "anyPrincipalMatches e ci srv (Principals rr) k = ((ok, err), srv')"
        by (metis prod.exhaust)
      have "shutdownCalled srv' = shutdownCalled srv"
        using anyPrincipalMatches_shutdownCalled[of e ci srv "Principals rr" k] ap by simp
      then show ?thesis using ci rr a ap
        by (auto simp add: matchRule_def Let_def split: option.splits bool.splits)
    qed
  qed
qed

lemma evalSSHPolicyRules_shutdownCalled:
  "shutdownCalled (snd (evalSSHPolicyRules e srv c rs k)) = shutdownCalled srv"
proof (induction rs arbitrary: srv)
  case Nil
  show ?case by simp
next
  case (Cons r rs)
  obtain x srv' where m: "matchRule e srv c r k = (x, srv')" by (metis prod.exhaust)
  have "shutdownCalled srv' = shutdownCalled srv"
    using matchRule_shutdownCalled[of e srv c r k] m by simp
  then show ?case using m Cons[of srv']
    by (auto split: sum.splits)
qed

lemma evaluatePolicy_shutdownCalled:
  "shutdownCalled (snd (evaluatePolicy e srv c k)) = shutdownCalled srv"
proof (cases "sshPolicy e")
  case None
  then show ?thesis by (simp add: evaluatePolicy_def)
next
  case (Some pol)
  have "shutdownCalled (snd (evalSSHPolicyRules e srv c (Rules pol) k)) = shutdownCalled srv"
    by (rule evalSSHPolicyRules_shutdownCalled)
  then show ?thesis using Some
    by (cases "evalSSHPolicyRules e srv c (Rules pol) k")
       (auto simp add: evaluatePolicy_def evalSSHPolicy_def split: option.splits)
qed

lemma setInfo_sessions: "sessions (snd (setInfo e ctx c)) = sessions c"
  by (auto simp add: setInfo_def Let_def split: option.splits)

lemma sendBanner_sessions: "sessions (snd (sendBanner ctx msg c)) = sessions c"
  by (auto simp add: sendBanner_def split: option.splits)

lemma doPolicyAuth_fence:
  assumes "doPolicyAuth e ctx k srv c = Returns (err, srv', c')"
  shows "shutdownCalled srv' = shutdownCalled srv \<and> sessions c' = sessions c"
proof -
  obtain x srv1 where ev: "evaluatePolicy e srv (snd (setInfo e ctx c)) k = (x, srv1)"
    by (metis prod.exhaust)
  have s1: "shutdownCalled srv1 = shutdownCalled srv"
    using evaluatePolicy_shutdownCalled[of e srv "snd (setInfo e ctx c)" k] ev by simp
  have s2: "sessions (snd (setInfo e ctx c)) = sessions c" by (rule setInfo_sessions)
  obtain ie c1 where si: "setInfo e ctx c = (ie, c1)" by (metis prod.exhaust)
  show ?thesis
    using assms ev s1 s2 si
    by (auto simp add: doPolicyAuth_def sendBanner_def Let_def
          split: option.splits if_splits outcome.splits sum.splits prod.splits bool.splits)
qed

lemma exec_call_after_shutdown:
  assumes "shutdownCalled srv"
    and "exec_call e x (srv, c) = Returns (bs, srv', c')"
  shows "shutdownCalled srv' \<and> True \<notin> set bs \<and> set (sessions c') \<subseteq> set (sessions c)"
proof (cases x)
  case CallShutdown
  then show ?thesis using assms by (auto simp add: Shutdown_def split: if_splits)
next
  case (CallAttach ss)
  then show ?thesis using assms by (auto simp add: attachSessionToConnIfNotShutdown_def)
next
  case (CallDetach ss)
  then show ?thesis using assms set_remove1_subset[of ss "sessions c"]
    by (auto simp add: detachSession_def)
next
  case (CallTrackActiveConn add)
  then show ?thesis using assms by (auto simp add: trackActiveConn_def)
next
  case (CallFetchPublicKeysURL url)
  then show ?thesis using assms by (auto simp add: fetchPublicKeysURL_shutdownCalled)
next
  case (CallDoPolicyAuth ctx k)
  then show ?thesis using assms
    by (auto split: outcome.splits dest: doPolicyAuth_fence)
qed

lemma exec_calls_after_shutdown:
  "shutdownCalled srv \<Longrightarrow> exec_calls e xs (srv, c) = Returns (bs, srv', c') \<Longrightarrow>
   shutdownCalled srv' \<and> True \<notin> set bs \<and> set (sessions c') \<subseteq> set (sessions c)"
proof (induction xs arbitrary: srv c bs)
  case Nil
  then show ?case by simp
next
  case (Cons x xs)
  from Cons.prems(2) obtain b1 srv1 c1 b2 where
    1: "exec_call e x (srv, c) = Returns (b1, srv1, c1)" and
    2: "exec_calls e xs (srv1, c1) = Returns (b2, srv', c')" and
    3: "bs = b1 @ b2"
    by (auto split: outcome.splits)
  have a: "shutdownCalled srv1 \<and> True \<notin> set b1 \<and> set (sessions c1) \<subseteq> set (sessions c)"
    using exec_call_after_shutdown[OF Cons.prems(1) 1] .
  have b: "shutdownCalled srv' \<and> True \<notin> set b2 \<and> set (sessions c') \<subseteq> set (sessions c1)"
    using Cons.IH[of srv1 c1 b2] a 2 by simp
  show ?case using a b 3 by auto
qed


text \<open>
  C8. A session made by \<open>newSSHSession\<close> is appended to \<open>conn.sessions\<close> exactly when
  \<open>shutdownCalled\<close> is not set at the attach. After \<open>Shutdown\<close>, whatever calls
  follow, the flag stays set, no attach answers true, and the connection holds no
  session that it did not hold before. A session that runs with the flag set writes
  the shutting-down message and exits with code 1, and nothing else changes.
\<close>

theorem shutdown_fence:
  "attachSessionToConnIfNotShutdown srv c (newSSHSession stamp hex)
     = Returns (\<not> shutdownCalled srv,
                if shutdownCalled srv then srv
                else srv\<lparr>sessionWaitGroup := sessionWaitGroup srv + 1\<rparr>,
                if shutdownCalled srv then c
                else c\<lparr>sessions := sessions c @ [newSSHSession stamp hex]\<rparr>)
   \<and> (exec_calls e xs (Shutdown srv c) = Returns (bs, srv', c') \<longrightarrow>
        shutdownCalled srv' \<and> True \<notin> set bs \<and> set (sessions c') \<subseteq> set (sessions c))
   \<and> (shutdownCalled srv \<longrightarrow>
        run e srv c ss
          = Returns ([Write (''Tailscale SSH is shutting down'' @ [CHR 0x0D, CHR 0x0A]),
                      Exit 1], srv, c))"
proof -
  have attach: "attachSessionToConnIfNotShutdown srv c (newSSHSession stamp hex)
     = Returns (\<not> shutdownCalled srv,
                if shutdownCalled srv then srv
                else srv\<lparr>sessionWaitGroup := sessionWaitGroup srv + 1\<rparr>,
                if shutdownCalled srv then c
                else c\<lparr>sessions := sessions c @ [newSSHSession stamp hex]\<rparr>)"
    by (simp add: attachSessionToConnIfNotShutdown_def attachSession_def newSSHSession_def)
  have ever: "shutdownCalled srv' \<and> True \<notin> set bs \<and> set (sessions c') \<subseteq> set (sessions c)"
    if h: "exec_calls e xs (Shutdown srv c) = Returns (bs, srv', c')"
  proof -
    have 1: "shutdownCalled (fst (Shutdown srv c))" by (simp add: Shutdown_def)
    have 2: "sessions (snd (Shutdown srv c)) = sessions c" by (simp add: Shutdown_def)
    have 3: "exec_calls e xs (fst (Shutdown srv c), snd (Shutdown srv c))
               = Returns (bs, srv', c')"
      using h by simp
    show ?thesis
      using exec_calls_after_shutdown[OF 1 3] 2 by simp
  qed
  have refused: "run e srv c ss
          = Returns ([Write (''Tailscale SSH is shutting down'' @ [CHR 0x0D, CHR 0x0A]),
                      Exit 1], srv, c)"
    if "shutdownCalled srv"
    using that by (simp add: run_def attachSessionToConnIfNotShutdown_def)
  show ?thesis
    using attach ever refused by blast
qed

theorem shutdown_fence_witness:
  "attachSessionToConnIfNotShutdown srv_sample conn_accepted (newSSHSession ''20220101T000000'' ''0a0b0c0d0e'')
     = Returns (True, srv_sample\<lparr>sessionWaitGroup := 1\<rparr>,
                conn_accepted\<lparr>sessions := [\<lparr>sharedID = ''sess-20220101T000000-0a0b0c0d0e''\<rparr>]\<rparr>)
   \<and> exec_calls env_sample
         [CallAttach (newSSHSession ''20220101T000000'' ''0a0b0c0d0e''),
          CallTrackActiveConn False,
          CallAttach (newSSHSession ''20220101T000001'' ''0101010101'')]
         (Shutdown srv_sample conn_accepted)
       = Returns ([False, False], srv_sample\<lparr>shutdownCalled := True\<rparr>, conn_accepted)
   \<and> shutdownCalled (srv_sample\<lparr>shutdownCalled := True\<rparr>)
   \<and> True \<notin> set [False, False]
   \<and> set (sessions conn_accepted) \<subseteq> set (sessions conn_accepted)
   \<and> run env_sample (srv_sample\<lparr>shutdownCalled := True\<rparr>) conn_accepted
         (newSSHSession ''20220101T000000'' ''0a0b0c0d0e'')
       = Returns ([Write (''Tailscale SSH is shutting down'' @ [CHR 0x0D, CHR 0x0A]), Exit 1],
                  srv_sample\<lparr>shutdownCalled := True\<rparr>, conn_accepted)"
proof -
  have x: "exec_calls env_sample
         [CallAttach (newSSHSession ''20220101T000000'' ''0a0b0c0d0e''),
          CallTrackActiveConn False,
          CallAttach (newSSHSession ''20220101T000001'' ''0101010101'')]
         (Shutdown srv_sample conn_accepted)
       = Returns ([False, False], srv_sample\<lparr>shutdownCalled := True\<rparr>, conn_accepted)"
    by (simp add: Shutdown_def attachSessionToConnIfNotShutdown_def trackActiveConn_def
          srv_sample_def)
  have a: "attachSessionToConnIfNotShutdown srv_sample conn_accepted
             (newSSHSession ''20220101T000000'' ''0a0b0c0d0e'')
     = Returns (True, srv_sample\<lparr>sessionWaitGroup := 1\<rparr>,
                conn_accepted\<lparr>sessions := [\<lparr>sharedID = ''sess-20220101T000000-0a0b0c0d0e''\<rparr>]\<rparr>)"
    using shutdown_fence
      [where srv = srv_sample and c = conn_accepted and stamp = "''20220101T000000''"
         and hex = "''0a0b0c0d0e''", THEN conjunct1]
    by (simp add: srv_sample_def newSSHSession_def conn_accepted_def conn_sample_def)
  have b: "shutdownCalled (srv_sample\<lparr>shutdownCalled := True\<rparr>)
           \<and> True \<notin> set [False, False]
           \<and> set (sessions conn_accepted) \<subseteq> set (sessions conn_accepted)"
    using shutdown_fence
      [where srv = srv_sample and c = conn_accepted and e = env_sample
         and xs = "[CallAttach (newSSHSession ''20220101T000000'' ''0a0b0c0d0e''),
                    CallTrackActiveConn False,
                    CallAttach (newSSHSession ''20220101T000001'' ''0101010101'')]"
         and bs = "[False, False]" and srv' = "srv_sample\<lparr>shutdownCalled := True\<rparr>"
         and c' = conn_accepted, THEN conjunct2, THEN conjunct1] x
    by blast
  have c: "run env_sample (srv_sample\<lparr>shutdownCalled := True\<rparr>) conn_accepted
         (newSSHSession ''20220101T000000'' ''0a0b0c0d0e'')
       = Returns ([Write (''Tailscale SSH is shutting down'' @ [CHR 0x0D, CHR 0x0A]), Exit 1],
                  srv_sample\<lparr>shutdownCalled := True\<rparr>, conn_accepted)"
    using shutdown_fence
      [where srv = "srv_sample\<lparr>shutdownCalled := True\<rparr>" and c = conn_accepted
         and e = env_sample and ss = "newSSHSession ''20220101T000000'' ''0a0b0c0d0e''",
         THEN conjunct2, THEN conjunct2]
    by simp
  show ?thesis
    using a b c x by blast
qed

subsection \<open>The kill of the child process\<close>

lemma killInvariant_step: "killInvariant s \<Longrightarrow> killInvariant (step a s)"
  by (cases a) (auto simp add: killInvariant_def)

lemma killInvariant_steps: "killInvariant s \<Longrightarrow> killInvariant (steps as s)"
  by (induction as arbitrary: s) (simp_all add: killInvariant_step)

lemma exitOnce_step: "exitOnce s \<Longrightarrow> exitOnce (step a s) \<and> killCalls (step a s) = killCalls s"
  by (cases a) auto

lemma exitOnce_steps:
  "exitOnce s \<Longrightarrow> exitOnce (steps as s) \<and> killCalls (steps as s) = killCalls s"
proof (induction as arbitrary: s)
  case Nil
  then show ?case by simp
next
  case (Cons a as)
  have "exitOnce (step a s) \<and> killCalls (step a s) = killCalls s"
    using Cons.prems by (rule exitOnce_step)
  then show ?case using Cons.IH[of "step a s"] by simp
qed


text \<open>
  C9. In every interleaving of \<open>run\<close> and the watcher, from the start of the session,
  \<open>cmd.Process.Kill\<close> is called at most once, and when it is called, the watcher has
  called it. Once \<open>exitOnce\<close> is claimed, by either of them, no later step calls
  \<open>Kill\<close>.
\<close>

theorem kill_at_most_once:
  "killCalls (steps as sessionStart) \<le> 1
   \<and> (killCalls (steps as sessionStart) = 1 \<longrightarrow>
        killerAt (steps as sessionStart) = KillerReturned)
   \<and> (exitOnce s \<longrightarrow> killCalls (steps bs s) = killCalls s)"
proof -
  have "killInvariant sessionStart" by (simp add: killInvariant_def sessionStart_def)
  then have "killInvariant (steps as sessionStart)" by (rule killInvariant_steps)
  then show ?thesis
    using exitOnce_steps[of s bs] by (auto simp add: killInvariant_def)
qed

theorem kill_at_most_once_witness:
  "killCalls (steps [Launch True, ContextDone, KillerWakes, KillerOnce, ChildExits,
                     WaitReturns, RunOnce, KillerOnce] sessionStart) = 1
   \<and> killerAt (steps [Launch True, ContextDone, KillerWakes, KillerOnce, ChildExits,
                      WaitReturns, RunOnce, KillerOnce] sessionStart) = KillerReturned
   \<and> exitOnce (steps [Launch True, ChildExits, WaitReturns, RunOnce] sessionStart)
   \<and> killCalls (steps [ContextDone, KillerWakes, KillerOnce]
                  (steps [Launch True, ChildExits, WaitReturns, RunOnce] sessionStart)) = 0"
  using kill_at_most_once
    [of "[Launch True, ContextDone, KillerWakes, KillerOnce, ChildExits,
          WaitReturns, RunOnce, KillerOnce]"
        "steps [Launch True, ChildExits, WaitReturns, RunOnce] sessionStart"
        "[ContextDone, KillerWakes, KillerOnce]"]
  by (simp add: sessionStart_def)


end
